theory Spec2Isabelle
  imports Complex_Main "HOL-Library.Word"
begin

unbundle bit_operations_syntax

section \<open>Magnum::Framebuffer: the calls it issues and what they address\<close>

text \<open>
  \<^verbatim>\<open>Framebuffer.h\<close> is a thin layer over the native graphics interface: every inline
  member function issues one or two native calls. The embedding has three parts.

  \<^item> The member functions of the header, each as the list of native calls it issues
    (\<open>bind\<close>, \<open>attachRenderbuffer\<close>, \<open>clear\<close>, \<open>blit\<close>, ...), in the order of the source.
  \<^item> The native layer, which is not code of this repository: a state (\<open>gl_state\<close>) and
    the effect of each native call on it (\<open>gl_exec\<close>), written after the spec's
    description of the collaborator.
  \<^item> Programs: sequences of calls of the class's interface (\<open>api_op\<close>, \<open>perform\<close>,
    \<open>run\<close>), with the lifetime of the C++ objects made explicit.

  The embedding is of the desktop build (\<^verbatim>\<open>MAGNUM_TARGET_GLES\<close> not defined), in which
  every enumerator and function of the header exists.
\<close>

subsection \<open>Native types\<close>

text \<open>
  \<^verbatim>\<open>GLenum\<close>, \<open>GLbitfield\<close> and \<open>GLuint\<close> are unsigned 32-bit integers, \<open>GLint\<close>
  and \<open>GLsizei\<close> are signed 32-bit integers (read a value with \<open>sint\<close>). Floating-point
  values are only stored and handed on, never computed with; a finite one is read as the
  real number it denotes.
\<close>

type_synonym GLenum = "32 word"
type_synonym GLbitfield = "32 word"
type_synonym GLuint = "32 word"
type_synonym GLint = "32 word"
type_synonym GLsizei = "32 word"
type_synonym GLfloat = real
type_synonym GLdouble = real

text \<open>
  The header names the native constants; their values are those of the OpenGL registry
  (\<^verbatim>\<open>glcorearb.h\<close>), which is not part of the repository.
\<close>

definition GL_NONE :: GLenum where "GL_NONE = 0"
definition GL_COLOR_BUFFER_BIT :: GLbitfield where "GL_COLOR_BUFFER_BIT = 0x4000"
definition GL_DEPTH_BUFFER_BIT :: GLbitfield where "GL_DEPTH_BUFFER_BIT = 0x100"
definition GL_STENCIL_BUFFER_BIT :: GLbitfield where "GL_STENCIL_BUFFER_BIT = 0x400"
definition GL_COLOR_ATTACHMENT0 :: GLenum where "GL_COLOR_ATTACHMENT0 = 0x8CE0"
definition GL_DEPTH_ATTACHMENT :: GLenum where "GL_DEPTH_ATTACHMENT = 0x8D00"
definition GL_STENCIL_ATTACHMENT :: GLenum where "GL_STENCIL_ATTACHMENT = 0x8D20"
definition GL_DEPTH_STENCIL_ATTACHMENT :: GLenum where "GL_DEPTH_STENCIL_ATTACHMENT = 0x821A"
definition GL_RENDERBUFFER :: GLenum where "GL_RENDERBUFFER = 0x8D41"
definition GL_FRONT_LEFT :: GLenum where "GL_FRONT_LEFT = 0x0400"
definition GL_FRONT_RIGHT :: GLenum where "GL_FRONT_RIGHT = 0x0401"
definition GL_BACK_LEFT :: GLenum where "GL_BACK_LEFT = 0x0402"
definition GL_BACK_RIGHT :: GLenum where "GL_BACK_RIGHT = 0x0403"
definition GL_FRONT :: GLenum where "GL_FRONT = 0x0404"
definition GL_BACK :: GLenum where "GL_BACK = 0x0405"
definition GL_LEFT :: GLenum where "GL_LEFT = 0x0406"
definition GL_RIGHT :: GLenum where "GL_RIGHT = 0x0407"
definition GL_FRONT_AND_BACK :: GLenum where "GL_FRONT_AND_BACK = 0x0408"

subsection \<open>The enumerations of the header\<close>

text \<open>
  An \<^verbatim>\<open>enum class E: GLenum\<close> whose enumerators are native constants is a datatype; a
  native call that receives \<^verbatim>\<open>static_cast<GLenum>(e)\<close> takes the enumerator itself.
  Where the header computes with the native value (attachment points, bit masks), the
  cast is a function to the word.
\<close>

datatype Feature = Blending | DepthClamp | DepthTest | StencilTest | Dithering | FaceCulling

datatype Clear = Color | Depth | Stencil

datatype Target = Read | Draw | ReadDraw

datatype DefaultDrawAttachment = NoneAttachment | BackLeft | BackRight | FrontLeft | FrontRight

datatype DefaultReadAttachment =
  FrontLeft | FrontRight | BackLeft | BackRight | Left | Right | Front | Back | FrontAndBack

datatype DepthStencilAttachment = Depth | Stencil | DepthStencil

datatype Blit = Color | Depth | Stencil

fun Clear_GLbitfield :: "Clear \<Rightarrow> GLbitfield" where
  "Clear_GLbitfield Clear.Color = GL_COLOR_BUFFER_BIT"
| "Clear_GLbitfield Clear.Depth = GL_DEPTH_BUFFER_BIT"
| "Clear_GLbitfield Clear.Stencil = GL_STENCIL_BUFFER_BIT"

fun Blit_GLbitfield :: "Blit \<Rightarrow> GLbitfield" where
  "Blit_GLbitfield Blit.Color = GL_COLOR_BUFFER_BIT"
| "Blit_GLbitfield Blit.Depth = GL_DEPTH_BUFFER_BIT"
| "Blit_GLbitfield Blit.Stencil = GL_STENCIL_BUFFER_BIT"

fun DefaultDrawAttachment_GLenum :: "DefaultDrawAttachment \<Rightarrow> GLenum" where
  "DefaultDrawAttachment_GLenum NoneAttachment = GL_NONE"
| "DefaultDrawAttachment_GLenum DefaultDrawAttachment.BackLeft = GL_BACK_LEFT"
| "DefaultDrawAttachment_GLenum DefaultDrawAttachment.BackRight = GL_BACK_RIGHT"
| "DefaultDrawAttachment_GLenum DefaultDrawAttachment.FrontLeft = GL_FRONT_LEFT"
| "DefaultDrawAttachment_GLenum DefaultDrawAttachment.FrontRight = GL_FRONT_RIGHT"

fun DefaultReadAttachment_GLenum :: "DefaultReadAttachment \<Rightarrow> GLenum" where
  "DefaultReadAttachment_GLenum DefaultReadAttachment.FrontLeft = GL_FRONT_LEFT"
| "DefaultReadAttachment_GLenum DefaultReadAttachment.FrontRight = GL_FRONT_RIGHT"
| "DefaultReadAttachment_GLenum DefaultReadAttachment.BackLeft = GL_BACK_LEFT"
| "DefaultReadAttachment_GLenum DefaultReadAttachment.BackRight = GL_BACK_RIGHT"
| "DefaultReadAttachment_GLenum Left = GL_LEFT"
| "DefaultReadAttachment_GLenum Right = GL_RIGHT"
| "DefaultReadAttachment_GLenum Front = GL_FRONT"
| "DefaultReadAttachment_GLenum Back = GL_BACK"
| "DefaultReadAttachment_GLenum FrontAndBack = GL_FRONT_AND_BACK"

fun DepthStencilAttachment_GLenum :: "DepthStencilAttachment \<Rightarrow> GLenum" where
  "DepthStencilAttachment_GLenum DepthStencilAttachment.Depth = GL_DEPTH_ATTACHMENT"
| "DepthStencilAttachment_GLenum DepthStencilAttachment.Stencil = GL_STENCIL_ATTACHMENT"
| "DepthStencilAttachment_GLenum DepthStencilAttachment.DepthStencil = GL_DEPTH_STENCIL_ATTACHMENT"

text \<open>
  \<^verbatim>\<open>typedef Corrade::Utility::Set<Clear, GLbitfield> ClearMask\<close> (and \<open>BlitMask\<close>): a
  bit field; \<open>ClearMask_of\<close> is the union of enumerators written \<^verbatim>\<open>a | b | c\<close>.
\<close>

type_synonym ClearMask = GLbitfield
type_synonym BlitMask = GLbitfield

fun ClearMask_of :: "Clear list \<Rightarrow> ClearMask" where
  "ClearMask_of [] = 0"
| "ClearMask_of (c # cs) = Clear_GLbitfield c OR ClearMask_of cs"

fun BlitMask_of :: "Blit list \<Rightarrow> BlitMask" where
  "BlitMask_of [] = 0"
| "BlitMask_of (c # cs) = Blit_GLbitfield c OR BlitMask_of cs"

subsection \<open>Collaborating classes\<close>

text \<open>
  The classes of the included headers, as far as \<^verbatim>\<open>Framebuffer.h\<close> uses them: a
  renderbuffer and a cube map texture give their \<^verbatim>\<open>id()\<close>, a texture its \<^verbatim>\<open>target()\<close> and
  \<^verbatim>\<open>id()\<close>, a vector its \<^verbatim>\<open>x()\<close> and \<^verbatim>\<open>y()\<close>, a colour its four channels.
  \<^verbatim>\<open>CubeMapTexture::Coordinate\<close>, \<^verbatim>\<open>AbstractImage::Components\<close>,
  \<^verbatim>\<open>AbstractImage::ComponentType\<close> and \<^verbatim>\<open>Buffer::Usage\<close> are enumerations of native
  constants that the header only casts and hands on. A pointer parameter
  (\<^verbatim>\<open>Renderbuffer*\<close>, \<^verbatim>\<open>Texture2D*\<close>, ...) is the object it points to: the functions
  dereference it without a check, so a null pointer is not an input they have.
\<close>

record Renderbuffer =
  Renderbuffer_id :: GLuint

record Texture =
  Texture_target :: GLenum
  Texture_id :: GLuint

record CubeMapTexture =
  CubeMapTexture_id :: GLuint

record Vector2 =
  vx :: GLint
  vy :: GLint

type_synonym Color4 = "GLfloat \<times> GLfloat \<times> GLfloat \<times> GLfloat"
type_synonym Coordinate = GLenum
type_synonym Components = GLenum
type_synonym ComponentType = GLenum
type_synonym Usage = GLenum

datatype Filter = NearestNeighbor | LinearInterpolation

subsection \<open>Native calls\<close>

text \<open>
  One constructor for each native function the class calls, with the arguments in the
  order of the native signature. \<open>GlGenFramebuffers n names\<close> carries the names the
  native layer writes to the out-parameter, \<open>GlReadPixels\<close> the destination instead of the
  data pointer.
\<close>

datatype read_destination = ClientMemory | PixelBuffer Usage

datatype gl_call =
    GlEnable Feature
  | GlDisable Feature
  | GlClear GLbitfield
  | GlClearColor GLfloat GLfloat GLfloat GLfloat
  | GlClearDepth GLdouble
  | GlClearDepthf GLfloat
  | GlClearStencil GLint
  | GlGenFramebuffers GLsizei "GLuint list"
  | GlDeleteFramebuffers GLsizei "GLuint list"
  | GlBindFramebuffer Target GLuint
  | GlReadBuffer GLenum
  | GlDrawBuffers "GLenum list"
  | GlFramebufferRenderbuffer Target GLenum GLenum GLuint
  | GlFramebufferTexture1D Target GLenum GLenum GLuint GLint
  | GlFramebufferTexture2D Target GLenum GLenum GLuint GLint
  | GlFramebufferTexture3D Target GLenum GLenum GLuint GLint GLint
  | GlBlitFramebuffer GLint GLint GLint GLint GLint GLint GLint GLint GLbitfield Filter
  | GlReadPixels GLint GLint GLsizei GLsizei Components ComponentType read_destination

subsection \<open>The class\<close>

text \<open>
  \<^verbatim>\<open>class Framebuffer\<close> has one data member, \<^verbatim>\<open>GLuint framebuffer\<close>, and one static
  member, \<^verbatim>\<open>static ClearMask clearMask\<close>. Copying and moving are deleted. A member
  function is a function of the object (\<open>fb\<close>) to the native calls it issues; a static
  function that reads \<open>clearMask\<close> takes its value.
\<close>

record Framebuffer =
  framebuffer :: GLuint

text \<open>\<^verbatim>\<open>inline static void clear() { glClear(static_cast<GLbitfield>(clearMask)); }\<close>\<close>

definition clear :: "ClearMask \<Rightarrow> gl_call list" where
  "clear clearMask_now = [GlClear clearMask_now]"

text \<open>\<^verbatim>\<open>inline static void clear(ClearMask mask) { glClear(static_cast<GLbitfield>(mask)); }\<close>\<close>

definition clear_mask :: "ClearMask \<Rightarrow> gl_call list" where
  "clear_mask m = [GlClear m]"

fun setClearColor :: "Color4 \<Rightarrow> gl_call list" where
  "setClearColor (r, g, b, a) = [GlClearColor r g b a]"

definition setClearDepth :: "GLdouble \<Rightarrow> gl_call list" where
  "setClearDepth depth = [GlClearDepth depth]"

definition setClearDepth_float :: "GLfloat \<Rightarrow> gl_call list" where
  "setClearDepth_float depth = [GlClearDepthf depth]"

definition setClearStencil :: "GLint \<Rightarrow> gl_call list" where
  "setClearStencil stencil = [GlClearStencil stencil]"

text \<open>
  \<^verbatim>\<open>inline Framebuffer() { glGenFramebuffers(1, &framebuffer); }\<close>: \<open>n\<close> is the name the
  native layer writes to \<open>framebuffer\<close>.
\<close>

definition Framebuffer_ctor :: "GLuint \<Rightarrow> gl_call list \<times> Framebuffer" where
  "Framebuffer_ctor n = ([GlGenFramebuffers 1 [n]], \<lparr>framebuffer = n\<rparr>)"

text \<open>\<^verbatim>\<open>inline ~Framebuffer() { glDeleteFramebuffers(1, &framebuffer); }\<close>\<close>

definition Framebuffer_dtor :: "Framebuffer \<Rightarrow> gl_call list" where
  "Framebuffer_dtor fb = [GlDeleteFramebuffers 1 [framebuffer fb]]"

definition bindDefault :: "Target \<Rightarrow> gl_call list" where
  "bindDefault target = [GlBindFramebuffer target 0]"

definition bind :: "Framebuffer \<Rightarrow> Target \<Rightarrow> gl_call list" where
  "bind fb target = [GlBindFramebuffer target (framebuffer fb)]"

definition mapDefaultForRead :: "DefaultReadAttachment \<Rightarrow> gl_call list" where
  "mapDefaultForRead attachment =
     bindDefault Read @ [GlReadBuffer (DefaultReadAttachment_GLenum attachment)]"

text \<open>
  \<^verbatim>\<open>glReadBuffer(GL_COLOR_ATTACHMENT0 + colorAttachment)\<close> with an \<^verbatim>\<open>unsigned int\<close>
  argument: the sum is taken in 32-bit unsigned arithmetic.
\<close>

definition mapForRead :: "Framebuffer \<Rightarrow> 32 word \<Rightarrow> gl_call list" where
  "mapForRead fb colorAttachment =
     bind fb Read @ [GlReadBuffer (GL_COLOR_ATTACHMENT0 + colorAttachment)]"

text \<open>The ten attach functions; the two overloads of a name differ in the slot argument.\<close>

definition attachRenderbuffer_depthStencil ::
  "Framebuffer \<Rightarrow> Target \<Rightarrow> DepthStencilAttachment \<Rightarrow> Renderbuffer \<Rightarrow> gl_call list" where
  "attachRenderbuffer_depthStencil fb target depthStencilAttachment renderbuffer =
     bind fb target @
     [GlFramebufferRenderbuffer target (DepthStencilAttachment_GLenum depthStencilAttachment)
        GL_RENDERBUFFER (Renderbuffer_id renderbuffer)]"

definition attachRenderbuffer_color ::
  "Framebuffer \<Rightarrow> Target \<Rightarrow> 32 word \<Rightarrow> Renderbuffer \<Rightarrow> gl_call list" where
  "attachRenderbuffer_color fb target colorAttachment renderbuffer =
     bind fb target @
     [GlFramebufferRenderbuffer target (GL_COLOR_ATTACHMENT0 + colorAttachment)
        GL_RENDERBUFFER (Renderbuffer_id renderbuffer)]"

definition attachTexture1D_depthStencil ::
  "Framebuffer \<Rightarrow> Target \<Rightarrow> DepthStencilAttachment \<Rightarrow> Texture \<Rightarrow> GLint \<Rightarrow> gl_call list" where
  "attachTexture1D_depthStencil fb target depthStencilAttachment texture mipLevel =
     bind fb target @
     [GlFramebufferTexture1D target (DepthStencilAttachment_GLenum depthStencilAttachment)
        (Texture_target texture) (Texture_id texture) mipLevel]"

definition attachTexture1D_color ::
  "Framebuffer \<Rightarrow> Target \<Rightarrow> 32 word \<Rightarrow> Texture \<Rightarrow> GLint \<Rightarrow> gl_call list" where
  "attachTexture1D_color fb target colorAttachment texture mipLevel =
     bind fb target @
     [GlFramebufferTexture1D target (GL_COLOR_ATTACHMENT0 + colorAttachment)
        (Texture_target texture) (Texture_id texture) mipLevel]"

definition attachTexture2D_depthStencil ::
  "Framebuffer \<Rightarrow> Target \<Rightarrow> DepthStencilAttachment \<Rightarrow> Texture \<Rightarrow> GLint \<Rightarrow> gl_call list" where
  "attachTexture2D_depthStencil fb target depthStencilAttachment texture mipLevel =
     bind fb target @
     [GlFramebufferTexture2D target (DepthStencilAttachment_GLenum depthStencilAttachment)
        (Texture_target texture) (Texture_id texture) mipLevel]"

definition attachTexture2D_color ::
  "Framebuffer \<Rightarrow> Target \<Rightarrow> 32 word \<Rightarrow> Texture \<Rightarrow> GLint \<Rightarrow> gl_call list" where
  "attachTexture2D_color fb target colorAttachment texture mipLevel =
     bind fb target @
     [GlFramebufferTexture2D target (GL_COLOR_ATTACHMENT0 + colorAttachment)
        (Texture_target texture) (Texture_id texture) mipLevel]"

definition attachCubeMapTexture_depthStencil ::
  "Framebuffer \<Rightarrow> Target \<Rightarrow> DepthStencilAttachment \<Rightarrow> CubeMapTexture \<Rightarrow> Coordinate \<Rightarrow> GLint
     \<Rightarrow> gl_call list" where
  "attachCubeMapTexture_depthStencil fb target depthStencilAttachment texture coordinate mipLevel =
     bind fb target @
     [GlFramebufferTexture2D target (DepthStencilAttachment_GLenum depthStencilAttachment)
        coordinate (CubeMapTexture_id texture) mipLevel]"

definition attachCubeMapTexture_color ::
  "Framebuffer \<Rightarrow> Target \<Rightarrow> 32 word \<Rightarrow> CubeMapTexture \<Rightarrow> Coordinate \<Rightarrow> GLint
     \<Rightarrow> gl_call list" where
  "attachCubeMapTexture_color fb target colorAttachment texture coordinate mipLevel =
     bind fb target @
     [GlFramebufferTexture2D target (GL_COLOR_ATTACHMENT0 + colorAttachment)
        coordinate (CubeMapTexture_id texture) mipLevel]"

definition attachTexture3D_depthStencil ::
  "Framebuffer \<Rightarrow> Target \<Rightarrow> DepthStencilAttachment \<Rightarrow> Texture \<Rightarrow> GLint \<Rightarrow> GLint
     \<Rightarrow> gl_call list" where
  "attachTexture3D_depthStencil fb target depthStencilAttachment texture mipLevel layer =
     bind fb target @
     [GlFramebufferTexture3D target (DepthStencilAttachment_GLenum depthStencilAttachment)
        (Texture_target texture) (Texture_id texture) mipLevel layer]"

definition attachTexture3D_color ::
  "Framebuffer \<Rightarrow> Target \<Rightarrow> 32 word \<Rightarrow> Texture \<Rightarrow> GLint \<Rightarrow> GLint \<Rightarrow> gl_call list" where
  "attachTexture3D_color fb target colorAttachment texture mipLevel layer =
     bind fb target @
     [GlFramebufferTexture3D target (GL_COLOR_ATTACHMENT0 + colorAttachment)
        (Texture_target texture) (Texture_id texture) mipLevel layer]"

text \<open>The general \<^verbatim>\<open>blit\<close> and the overload for one rectangle.\<close>

definition blit ::
  "Vector2 \<Rightarrow> Vector2 \<Rightarrow> Vector2 \<Rightarrow> Vector2 \<Rightarrow> BlitMask \<Rightarrow> Filter \<Rightarrow> gl_call list" where
  "blit bottomLeft topRight destinationBottomLeft destinationTopRight blitMask filtering =
     [GlBlitFramebuffer (vx bottomLeft) (vy bottomLeft) (vx topRight) (vy topRight)
        (vx destinationBottomLeft) (vy destinationBottomLeft)
        (vx destinationTopRight) (vy destinationTopRight) blitMask filtering]"

definition blit_rectangle :: "Vector2 \<Rightarrow> Vector2 \<Rightarrow> BlitMask \<Rightarrow> gl_call list" where
  "blit_rectangle bottomLeft topRight blitMask =
     [GlBlitFramebuffer (vx bottomLeft) (vy bottomLeft) (vx topRight) (vy topRight)
        (vx bottomLeft) (vy bottomLeft) (vx topRight) (vy topRight) blitMask NearestNeighbor]"

subsection \<open>Functions the header declares and does not define\<close>

text \<open>
  Modelled from the spec: \<^verbatim>\<open>static void setFeature(Feature feature, bool enabled)\<close> is
  declared in the header; its body, and the initial value of the static member
  \<open>clearMask\<close>, are in \<^verbatim>\<open>Framebuffer.cpp\<close>, which is not among the sources. The spec:
  "\<open>setFeature(feature, enabled)\<close>: toggles one flag; idempotent; no error conditions",
  and of \<open>clear()\<close> "a buffer is skipped if its corresponding test (depth/stencil) is
  disabled", "the source clears depth/stencil only when the corresponding test is
  enabled, for the no-argument \<open>clear()\<close> form only". The header's \<open>clear()\<close> passes
  \<open>clearMask\<close> and reads nothing else, so the function that toggles a test keeps the
  test's bit of \<open>clearMask\<close>. Initially "dithering on; others off", so the mask starts
  as \<open>Clear::Color\<close>.
\<close>

definition setFeature :: "Feature \<Rightarrow> bool \<Rightarrow> ClearMask \<Rightarrow> gl_call list \<times> ClearMask" where
  "setFeature feature on clearMask_now =
     ([if on then GlEnable feature else GlDisable feature],
      (if feature = DepthTest then
         (if on then clearMask_now OR Clear_GLbitfield Clear.Depth
          else clearMask_now AND NOT (Clear_GLbitfield Clear.Depth))
       else if feature = StencilTest then
         (if on then clearMask_now OR Clear_GLbitfield Clear.Stencil
          else clearMask_now AND NOT (Clear_GLbitfield Clear.Stencil))
       else clearMask_now))"

definition initial_clearMask :: ClearMask where
  "initial_clearMask = Clear_GLbitfield Clear.Color"

text \<open>
  Modelled from the spec: the two \<^verbatim>\<open>read\<close> functions are declared in the header and
  defined in \<^verbatim>\<open>Framebuffer.cpp\<close>. The spec: "extracts a rectangle of pixels from the
  Read-bound target's mapped read slot into a destination image description (component
  layout + numeric type), optionally into a buffer-backed destination tagged with a usage
  hint"; "this core does not pre-validate them, only forwards parameters faithfully".
\<close>

definition read :: "Vector2 \<Rightarrow> Vector2 \<Rightarrow> Components \<Rightarrow> ComponentType \<Rightarrow> gl_call list" where
  "read offset dimensions components componentType =
     [GlReadPixels (vx offset) (vy offset) (vx dimensions) (vy dimensions)
        components componentType ClientMemory]"

definition read_buffered ::
  "Vector2 \<Rightarrow> Vector2 \<Rightarrow> Components \<Rightarrow> ComponentType \<Rightarrow> Usage \<Rightarrow> gl_call list" where
  "read_buffered offset dimensions components componentType usage =
     [GlReadPixels (vx offset) (vy offset) (vx dimensions) (vy dimensions)
        components componentType (PixelBuffer usage)]"

text \<open>
  Modelled from the spec: \<^verbatim>\<open>mapForDraw\<close> and \<^verbatim>\<open>mapDefaultForDraw\<close> are declared in the
  header and defined in \<^verbatim>\<open>Framebuffer.cpp\<close>. The spec: "records which color slots feed
  fragment output and in what order. A \<open>none\<close> entry at position i suppresses output i
  without consuming a slot", and "this core's contract is to always perform the implicit
  bind itself before the operation that needs it". The header: "If any value is -1, given
  output is not used". The list is a \<^verbatim>\<open>std::initializer_list<int>\<close>; \<open>- 1\<close> is the word
  of all ones.
\<close>

definition mapForDraw :: "Framebuffer \<Rightarrow> 32 word list \<Rightarrow> gl_call list" where
  "mapForDraw fb colorAttachments =
     bind fb Draw @
     [GlDrawBuffers
        (map (\<lambda>a. if a = - 1 then GL_NONE else GL_COLOR_ATTACHMENT0 + a) colorAttachments)]"

definition mapDefaultForDraw :: "DefaultDrawAttachment list \<Rightarrow> gl_call list" where
  "mapDefaultForDraw attachments =
     bindDefault Draw @ [GlDrawBuffers (map DefaultDrawAttachment_GLenum attachments)]"

subsection \<open>The native layer\<close>

text \<open>
  Modelled from the spec: the native layer is the collaborator the class calls; none of it
  is code of the repository. Its state is what the spec says the calls address: "one
  implicit per-context current-binding state (one Read-bound target, one Draw-bound target,
  one Draw/Read color-slot mapping per target)", the feature flags and clear values of the
  pipeline state, and for every target its attachment slots. Pixel contents are not
  modelled: a plane of a target carries the list of the writes issued against it (a clear
  with the clear value then current, or a blit with its source and rectangles), so that
  "untouched" is an unchanged list. Write masks, scissoring and the completeness of a
  target are left out.

  \<^item> "\<open>bind(role)\<close>: makes this target the active target for a role"; the role
    \<open>ReadDraw\<close> is both roles.
  \<^item> "the native attach operation addresses the currently bound target for that role".
  \<^item> \<open>clear\<close> "clears color/depth/stencil of the currently Draw-bound target using the
    current clear color/depth/stencil values".
  \<^item> \<open>blit\<close> "copies the requested buffer planes from the Read-bound target's mapped read
    slot to the Draw-bound target".
  \<^item> "\<open>Destroyed\<close> is terminal and must implicitly remove the target from any role it
    occupied": deleting a name rebinds the roles it held to the default target \<open>0\<close>.
\<close>

datatype plane = ColorPlane | DepthPlane | StencilPlane

datatype attached =
    RenderbufferImage GLenum GLuint
  | TextureImage GLenum GLuint GLint "GLint option"

datatype pixel_write =
    ClearedColor Color4
  | ClearedDepth GLdouble
  | ClearedStencil GLint
  | Blitted GLuint "GLenum option" GLint GLint GLint GLint GLint GLint GLint GLint Filter

record gl_state =
  enabled :: "Feature \<Rightarrow> bool"
  names :: "GLuint set"
  read_framebuffer :: GLuint
  draw_framebuffer :: GLuint
  attachments :: "GLuint \<Rightarrow> GLenum \<Rightarrow> attached option"
  read_buffer :: "GLuint \<Rightarrow> GLenum option"
  draw_buffers :: "GLuint \<Rightarrow> GLenum list option"
  clear_color :: Color4
  clear_depth :: GLdouble
  clear_stencil :: GLint
  planes :: "GLuint \<Rightarrow> plane \<Rightarrow> pixel_write list"

fun bound_framebuffer :: "gl_state \<Rightarrow> Target \<Rightarrow> GLuint" where
  "bound_framebuffer g Read = read_framebuffer g"
| "bound_framebuffer g Draw = draw_framebuffer g"
| "bound_framebuffer g ReadDraw = draw_framebuffer g"

fun plane_bit :: "plane \<Rightarrow> GLbitfield" where
  "plane_bit ColorPlane = GL_COLOR_BUFFER_BIT"
| "plane_bit DepthPlane = GL_DEPTH_BUFFER_BIT"
| "plane_bit StencilPlane = GL_STENCIL_BUFFER_BIT"

definition in_mask :: "plane \<Rightarrow> GLbitfield \<Rightarrow> bool" where
  "in_mask p m = (m AND plane_bit p \<noteq> 0)"

fun clear_write :: "gl_state \<Rightarrow> plane \<Rightarrow> pixel_write" where
  "clear_write g ColorPlane = ClearedColor (clear_color g)"
| "clear_write g DepthPlane = ClearedDepth (clear_depth g)"
| "clear_write g StencilPlane = ClearedStencil (clear_stencil g)"

definition write_planes :: "GLbitfield \<Rightarrow> (plane \<Rightarrow> pixel_write) \<Rightarrow> gl_state \<Rightarrow> gl_state" where
  "write_planes m wr g =
     g\<lparr>planes := (\<lambda>fb p. if fb = draw_framebuffer g \<and> in_mask p m
                          then planes g fb p @ [wr p] else planes g fb p)\<rparr>"

definition attach_image :: "Target \<Rightarrow> GLenum \<Rightarrow> attached \<Rightarrow> gl_state \<Rightarrow> gl_state" where
  "attach_image target point img g =
     g\<lparr>attachments := (attachments g)
         (bound_framebuffer g target := (attachments g (bound_framebuffer g target))(point \<mapsto> img))\<rparr>"

definition unbind_deleted :: "GLuint list \<Rightarrow> GLuint \<Rightarrow> GLuint" where
  "unbind_deleted ns h = (if h \<in> set ns then 0 else h)"

fun gl_exec :: "gl_call \<Rightarrow> gl_state \<Rightarrow> gl_state" where
  "gl_exec (GlEnable f) g = g\<lparr>enabled := (enabled g)(f := True)\<rparr>"
| "gl_exec (GlDisable f) g = g\<lparr>enabled := (enabled g)(f := False)\<rparr>"
| "gl_exec (GlClear m) g = write_planes m (clear_write g) g"
| "gl_exec (GlClearColor r gr b a) g = g\<lparr>clear_color := (r, gr, b, a)\<rparr>"
| "gl_exec (GlClearDepth d) g = g\<lparr>clear_depth := d\<rparr>"
| "gl_exec (GlClearDepthf d) g = g\<lparr>clear_depth := d\<rparr>"
| "gl_exec (GlClearStencil s) g = g\<lparr>clear_stencil := s\<rparr>"
| "gl_exec (GlGenFramebuffers n ns) g = g\<lparr>names := set ns \<union> names g\<rparr>"
| "gl_exec (GlDeleteFramebuffers n ns) g =
     g\<lparr>names := names g - set ns,
       read_framebuffer := unbind_deleted ns (read_framebuffer g),
       draw_framebuffer := unbind_deleted ns (draw_framebuffer g),
       attachments := (\<lambda>fb. if fb \<in> set ns then Map.empty else attachments g fb)\<rparr>"
| "gl_exec (GlBindFramebuffer Read h) g = g\<lparr>read_framebuffer := h\<rparr>"
| "gl_exec (GlBindFramebuffer Draw h) g = g\<lparr>draw_framebuffer := h\<rparr>"
| "gl_exec (GlBindFramebuffer ReadDraw h) g = g\<lparr>read_framebuffer := h, draw_framebuffer := h\<rparr>"
| "gl_exec (GlReadBuffer b) g = g\<lparr>read_buffer := (read_buffer g)(read_framebuffer g \<mapsto> b)\<rparr>"
| "gl_exec (GlDrawBuffers bs) g = g\<lparr>draw_buffers := (draw_buffers g)(draw_framebuffer g \<mapsto> bs)\<rparr>"
| "gl_exec (GlFramebufferRenderbuffer t point rt rb) g =
     attach_image t point (RenderbufferImage rt rb) g"
| "gl_exec (GlFramebufferTexture1D t point tt tex level) g =
     attach_image t point (TextureImage tt tex level None) g"
| "gl_exec (GlFramebufferTexture2D t point tt tex level) g =
     attach_image t point (TextureImage tt tex level None) g"
| "gl_exec (GlFramebufferTexture3D t point tt tex level layer) g =
     attach_image t point (TextureImage tt tex level (Some layer)) g"
| "gl_exec (GlBlitFramebuffer sx0 sy0 sx1 sy1 dx0 dy0 dx1 dy1 m f) g =
     write_planes m
       (\<lambda>p. Blitted (read_framebuffer g) (read_buffer g (read_framebuffer g))
               sx0 sy0 sx1 sy1 dx0 dy0 dx1 dy1 f) g"
| "gl_exec (GlReadPixels px py w h cs ct dst) g = g"

fun gl_run :: "gl_call list \<Rightarrow> gl_state \<Rightarrow> gl_state" where
  "gl_run [] g = g"
| "gl_run (c # cs) g = gl_run cs (gl_exec c g)"

text \<open>
  The state of a fresh context, by the header's comments ("Dithering (enabled by
  default)", clear colour "Initial value is \<open>{0.0f, 0.0f, 0.0f, 1.0f}\<close>", clear depth
  "Initial value is \<open>1.0\<close>", clear stencil "Initial value is \<open>0\<close>") and the spec
  ("dithering on; others off"): the default target holds both roles, no name is in use,
  nothing is attached or mapped, nothing has been written.
\<close>

definition initial_gl :: gl_state where
  "initial_gl =
     \<lparr>enabled = (\<lambda>f. f = Dithering), names = {}, read_framebuffer = 0, draw_framebuffer = 0,
      attachments = (\<lambda>fb. Map.empty), read_buffer = Map.empty, draw_buffers = Map.empty,
      clear_color = (0, 0, 0, 1), clear_depth = 1, clear_stencil = 0,
      planes = (\<lambda>fb p. [])\<rparr>"

subsection \<open>Programs over the interface\<close>

text \<open>
  A slot is what the second parameter of an attach function selects, a resource what the
  remaining parameters name; \<open>attach\<close> is the overload the compiler picks for them.
  \<open>slot_point\<close> is the attachment point of a slot and \<open>resource_image\<close> the reference
  the native layer keeps for a resource ("texture handle + mip level + optional
  face/layer, or renderbuffer handle").
\<close>

datatype slot = ColorSlot "32 word" | DepthStencilSlot DepthStencilAttachment

datatype resource =
    RenderbufferResource Renderbuffer
  | Texture1DResource Texture GLint
  | Texture2DResource Texture GLint
  | CubeMapResource CubeMapTexture Coordinate GLint
  | Texture3DResource Texture GLint GLint

fun attach :: "Framebuffer \<Rightarrow> Target \<Rightarrow> slot \<Rightarrow> resource \<Rightarrow> gl_call list" where
  "attach fb t (DepthStencilSlot d) (RenderbufferResource rb) =
     attachRenderbuffer_depthStencil fb t d rb"
| "attach fb t (ColorSlot n) (RenderbufferResource rb) = attachRenderbuffer_color fb t n rb"
| "attach fb t (DepthStencilSlot d) (Texture1DResource tex l) =
     attachTexture1D_depthStencil fb t d tex l"
| "attach fb t (ColorSlot n) (Texture1DResource tex l) = attachTexture1D_color fb t n tex l"
| "attach fb t (DepthStencilSlot d) (Texture2DResource tex l) =
     attachTexture2D_depthStencil fb t d tex l"
| "attach fb t (ColorSlot n) (Texture2DResource tex l) = attachTexture2D_color fb t n tex l"
| "attach fb t (DepthStencilSlot d) (CubeMapResource tex co l) =
     attachCubeMapTexture_depthStencil fb t d tex co l"
| "attach fb t (ColorSlot n) (CubeMapResource tex co l) =
     attachCubeMapTexture_color fb t n tex co l"
| "attach fb t (DepthStencilSlot d) (Texture3DResource tex l la) =
     attachTexture3D_depthStencil fb t d tex l la"
| "attach fb t (ColorSlot n) (Texture3DResource tex l la) =
     attachTexture3D_color fb t n tex l la"

fun slot_point :: "slot \<Rightarrow> GLenum" where
  "slot_point (ColorSlot n) = GL_COLOR_ATTACHMENT0 + n"
| "slot_point (DepthStencilSlot d) = DepthStencilAttachment_GLenum d"

fun resource_image :: "resource \<Rightarrow> attached" where
  "resource_image (RenderbufferResource rb) = RenderbufferImage GL_RENDERBUFFER (Renderbuffer_id rb)"
| "resource_image (Texture1DResource tex l) =
     TextureImage (Texture_target tex) (Texture_id tex) l None"
| "resource_image (Texture2DResource tex l) =
     TextureImage (Texture_target tex) (Texture_id tex) l None"
| "resource_image (CubeMapResource tex co l) = TextureImage co (CubeMapTexture_id tex) l None"
| "resource_image (Texture3DResource tex l la) =
     TextureImage (Texture_target tex) (Texture_id tex) l (Some la)"

text \<open>
  The state a program runs in: the native state, the static member \<open>clearMask\<close>, and the
  \<open>Framebuffer\<close> objects that are alive. \<open>Construct n\<close> is a constructor call for which
  the native layer hands out the name \<open>n\<close>; it never hands out \<open>0\<close> (the default
  target) or a name in use. A member function is called on a live object only, and an
  object is destroyed once: copying and moving are deleted, and C++ gives no way to call a
  member of an object after its destructor. \<open>perform\<close> returns \<open>None\<close> for a step no
  program can take, otherwise the native calls the step issues and the state after them.
\<close>

datatype api_op =
    Construct GLuint
  | Destruct Framebuffer
  | SetFeature Feature bool
  | ClearAll
  | ClearMasked ClearMask
  | SetClearColor Color4
  | SetClearDepth GLdouble
  | SetClearDepthFloat GLfloat
  | SetClearStencil GLint
  | BindDefault Target
  | Bind Framebuffer Target
  | MapDefaultForDraw "DefaultDrawAttachment list"
  | MapForDraw Framebuffer "32 word list"
  | MapDefaultForRead DefaultReadAttachment
  | MapForRead Framebuffer "32 word"
  | Attach Framebuffer Target slot resource
  | BlitRectangles Vector2 Vector2 Vector2 Vector2 BlitMask Filter
  | BlitRectangle Vector2 Vector2 BlitMask
  | ReadImage Vector2 Vector2 Components ComponentType
  | ReadBufferedImage Vector2 Vector2 Components ComponentType Usage

record world =
  gl :: gl_state
  clearMask :: ClearMask
  objects :: "Framebuffer set"

definition issue :: "gl_call list \<Rightarrow> world \<Rightarrow> (gl_call list \<times> world) option" where
  "issue cs w = Some (cs, w\<lparr>gl := gl_run cs (gl w)\<rparr>)"

definition on_object ::
  "Framebuffer \<Rightarrow> gl_call list \<Rightarrow> world \<Rightarrow> (gl_call list \<times> world) option" where
  "on_object fb cs w = (if fb \<in> objects w then issue cs w else None)"

fun perform :: "api_op \<Rightarrow> world \<Rightarrow> (gl_call list \<times> world) option" where
  "perform (Construct n) w =
     (if n \<noteq> 0 \<and> n \<notin> names (gl w) then
        (case Framebuffer_ctor n of
           (cs, fb) \<Rightarrow> Some (cs, w\<lparr>gl := gl_run cs (gl w), objects := insert fb (objects w)\<rparr>))
      else None)"
| "perform (Destruct fb) w =
     (if fb \<in> objects w then
        Some (Framebuffer_dtor fb,
              w\<lparr>gl := gl_run (Framebuffer_dtor fb) (gl w), objects := objects w - {fb}\<rparr>)
      else None)"
| "perform (SetFeature f b) w =
     (case setFeature f b (clearMask w) of
        (cs, cm) \<Rightarrow> Some (cs, w\<lparr>gl := gl_run cs (gl w), clearMask := cm\<rparr>))"
| "perform ClearAll w = issue (clear (clearMask w)) w"
| "perform (ClearMasked m) w = issue (clear_mask m) w"
| "perform (SetClearColor c) w = issue (setClearColor c) w"
| "perform (SetClearDepth d) w = issue (setClearDepth d) w"
| "perform (SetClearDepthFloat d) w = issue (setClearDepth_float d) w"
| "perform (SetClearStencil s) w = issue (setClearStencil s) w"
| "perform (BindDefault t) w = issue (bindDefault t) w"
| "perform (Bind fb t) w = on_object fb (bind fb t) w"
| "perform (MapDefaultForDraw as) w = issue (mapDefaultForDraw as) w"
| "perform (MapForDraw fb as) w = on_object fb (mapForDraw fb as) w"
| "perform (MapDefaultForRead a) w = issue (mapDefaultForRead a) w"
| "perform (MapForRead fb n) w = on_object fb (mapForRead fb n) w"
| "perform (Attach fb t sl res) w = on_object fb (attach fb t sl res) w"
| "perform (BlitRectangles a b c d m f) w = issue (blit a b c d m f) w"
| "perform (BlitRectangle a b m) w = issue (blit_rectangle a b m) w"
| "perform (ReadImage off dims cs ct) w = issue (read off dims cs ct) w"
| "perform (ReadBufferedImage off dims cs ct u) w = issue (read_buffered off dims cs ct u) w"

fun run :: "api_op list \<Rightarrow> world \<Rightarrow> (gl_call list \<times> world) option" where
  "run [] w = Some ([], w)"
| "run (a # as) w =
     (case perform a w of
        None \<Rightarrow> None
      | Some (cs, w') \<Rightarrow>
          (case run as w' of None \<Rightarrow> None | Some (ds, w'') \<Rightarrow> Some (cs @ ds, w'')))"

definition initial_world :: world where
  "initial_world = \<lparr>gl = initial_gl, clearMask = initial_clearMask, objects = {}\<rparr>"

subsection \<open>Notions the properties are stated with\<close>

text \<open>
  \<open>attach_target c\<close> is the role a native attach call addresses (\<open>None\<close> for any other
  call). \<open>binds_first prev cs\<close>: in the calls \<open>cs\<close>, issued after the call \<open>prev\<close>, every
  native attach call comes right after a bind of the role it addresses.
\<close>

fun attach_target :: "gl_call \<Rightarrow> Target option" where
  "attach_target (GlFramebufferRenderbuffer t point rt rb) = Some t"
| "attach_target (GlFramebufferTexture1D t point tt tex level) = Some t"
| "attach_target (GlFramebufferTexture2D t point tt tex level) = Some t"
| "attach_target (GlFramebufferTexture3D t point tt tex level layer) = Some t"
| "attach_target c = None"

fun binds_role :: "gl_call option \<Rightarrow> Target \<Rightarrow> bool" where
  "binds_role (Some (GlBindFramebuffer t' h)) t = (t' = t)"
| "binds_role prev t = False"

fun binds_first :: "gl_call option \<Rightarrow> gl_call list \<Rightarrow> bool" where
  "binds_first prev [] = True"
| "binds_first prev (c # cs) =
     ((case attach_target c of None \<Rightarrow> True | Some t \<Rightarrow> binds_role prev t)
      \<and> binds_first (Some c) cs)"

text \<open>The other one of the two roles \<open>Read\<close> and \<open>Draw\<close>.\<close>

fun other_role :: "Target \<Rightarrow> Target" where
  "other_role Read = Draw"
| "other_role Draw = Read"
| "other_role ReadDraw = ReadDraw"

text \<open>A step that binds a target to the role \<open>t\<close> and does nothing else.\<close>

fun binds_only :: "Target \<Rightarrow> api_op \<Rightarrow> bool" where
  "binds_only t (Bind fb t') = (t' = t)"
| "binds_only t (BindDefault t') = (t' = t)"
| "binds_only t a = False"

text \<open>
  How often the calls \<open>cs\<close> hand out the name \<open>h\<close>, and how often they release it.
\<close>

fun generated :: "gl_call \<Rightarrow> GLuint list" where
  "generated (GlGenFramebuffers n ns) = ns"
| "generated c = []"

fun released :: "gl_call \<Rightarrow> GLuint list" where
  "released (GlDeleteFramebuffers n ns) = ns"
| "released c = []"

definition allocations :: "GLuint \<Rightarrow> gl_call list \<Rightarrow> nat" where
  "allocations h cs = count_list (concat (map generated cs)) h"

definition releases :: "GLuint \<Rightarrow> gl_call list \<Rightarrow> nat" where
  "releases h cs = count_list (concat (map released cs)) h"

text \<open>
  The plane a \<open>Clear\<close> enumerator names, and the mask that \<open>clear()\<close> is documented to
  use for a given set of enabled features: colour always, depth and stencil with their
  tests.
\<close>

fun clear_plane :: "Clear \<Rightarrow> plane" where
  "clear_plane Clear.Color = ColorPlane"
| "clear_plane Clear.Depth = DepthPlane"
| "clear_plane Clear.Stencil = StencilPlane"

definition mask_of_tests :: "(Feature \<Rightarrow> bool) \<Rightarrow> ClearMask" where
  "mask_of_tests en =
     ClearMask_of ([Clear.Color] @ (if en DepthTest then [Clear.Depth] else [])
                   @ (if en StencilTest then [Clear.Stencil] else []))"

text \<open>
  \<open>balanced tr w\<close>: after the calls \<open>tr\<close>, every name was handed out once more than it
  was released if a live object holds it and exactly as often otherwise, the names in use
  are the handles of the live objects, and none of them is the default target.
\<close>

definition balanced :: "gl_call list \<Rightarrow> world \<Rightarrow> bool" where
  "balanced tr w \<longleftrightarrow>
     (\<forall>h. allocations h tr = releases h tr + (if \<lparr>framebuffer = h\<rparr> \<in> objects w then 1 else 0))
     \<and> names (gl w) = framebuffer ` objects w \<and> 0 \<notin> names (gl w)"

section \<open>Properties\<close>

subsection \<open>Unfolding the interface\<close>

lemmas api_defs =
  clear_def clear_mask_def setClearDepth_def setClearDepth_float_def setClearStencil_def
  Framebuffer_ctor_def Framebuffer_dtor_def bindDefault_def bind_def mapDefaultForRead_def
  mapForRead_def mapForDraw_def mapDefaultForDraw_def blit_def blit_rectangle_def read_def
  read_buffered_def issue_def on_object_def

lemmas attach_defs =
  attachRenderbuffer_depthStencil_def attachRenderbuffer_color_def
  attachTexture1D_depthStencil_def attachTexture1D_color_def
  attachTexture2D_depthStencil_def attachTexture2D_color_def
  attachCubeMapTexture_depthStencil_def attachCubeMapTexture_color_def
  attachTexture3D_depthStencil_def attachTexture3D_color_def

lemmas gl_constants =
  GL_NONE_def GL_COLOR_BUFFER_BIT_def GL_DEPTH_BUFFER_BIT_def GL_STENCIL_BUFFER_BIT_def
  GL_COLOR_ATTACHMENT0_def GL_DEPTH_ATTACHMENT_def GL_STENCIL_ATTACHMENT_def
  GL_DEPTH_STENCIL_ATTACHMENT_def GL_RENDERBUFFER_def

lemmas eval_defs =
  api_defs attach_defs setFeature_def initial_world_def initial_gl_def initial_clearMask_def
  write_planes_def attach_image_def unbind_deleted_def in_mask_def gl_constants

subsection \<open>Masks\<close>

lemma plane_bits:
  "GL_COLOR_BUFFER_BIT AND GL_DEPTH_BUFFER_BIT = 0"
  "GL_COLOR_BUFFER_BIT AND GL_STENCIL_BUFFER_BIT = 0"
  "GL_DEPTH_BUFFER_BIT AND GL_STENCIL_BUFFER_BIT = 0"
  "GL_DEPTH_BUFFER_BIT AND GL_COLOR_BUFFER_BIT = 0"
  "GL_STENCIL_BUFFER_BIT AND GL_COLOR_BUFFER_BIT = 0"
  "GL_STENCIL_BUFFER_BIT AND GL_DEPTH_BUFFER_BIT = 0"
  "GL_COLOR_BUFFER_BIT \<noteq> 0"
  "GL_DEPTH_BUFFER_BIT \<noteq> 0"
  "GL_STENCIL_BUFFER_BIT \<noteq> 0"
  by (simp_all add: GL_COLOR_BUFFER_BIT_def GL_DEPTH_BUFFER_BIT_def GL_STENCIL_BUFFER_BIT_def)

lemma in_mask_or: "in_mask p (a OR b) \<longleftrightarrow> in_mask p a \<or> in_mask p b"
  by (simp add: in_mask_def bit.conj_disj_distrib2 or_eq_0_iff)

lemma in_mask_zero: "\<not> in_mask p 0"
  by (simp add: in_mask_def)

lemma in_mask_bit: "in_mask (clear_plane c) (Clear_GLbitfield d) \<longleftrightarrow> d = c"
  by (cases c; cases d) (simp_all add: in_mask_def plane_bits)

lemma in_mask_ClearMask_of: "in_mask (clear_plane c) (ClearMask_of cs) \<longleftrightarrow> c \<in> set cs"
  by (induction cs) (auto simp add: in_mask_zero in_mask_or in_mask_bit)

lemma in_mask_tests_aux:
  "in_mask (clear_plane c) (mask_of_tests en) \<longleftrightarrow>
     c = Clear.Color \<or> (c = Clear.Depth \<and> en DepthTest) \<or> (c = Clear.Stencil \<and> en StencilTest)"
  unfolding mask_of_tests_def in_mask_ClearMask_of by auto

lemma in_mask_tests:
  "in_mask ColorPlane (mask_of_tests en)"
  "in_mask DepthPlane (mask_of_tests en) \<longleftrightarrow> en DepthTest"
  "in_mask StencilPlane (mask_of_tests en) \<longleftrightarrow> en StencilTest"
  using in_mask_tests_aux [of Clear.Color en] in_mask_tests_aux [of Clear.Depth en]
    in_mask_tests_aux [of Clear.Stencil en]
  by simp_all

lemma or_idem_word: "(a OR b) OR b = a OR (b::32 word)"
  by (simp add: ac_simps)

lemma and_not_idem_word: "(a AND NOT b) AND NOT b = a AND NOT (b::32 word)"
  by (simp add: ac_simps)

subsection \<open>Native calls on the state\<close>

lemma gl_run_append: "gl_run (cs @ ds) g = gl_run ds (gl_run cs g)"
  by (induction cs arbitrary: g) simp_all

lemma clear_write_enabled: "clear_write (g\<lparr>enabled := en\<rparr>) p = clear_write g p"
  by (cases p) simp_all

lemma planes_clear:
  "planes (gl_run [GlClear m] g) fb p =
     (if fb = draw_framebuffer g \<and> in_mask p m then planes g fb p @ [clear_write g p]
      else planes g fb p)"
  by (simp add: write_planes_def)

lemma clear_only_planes: "gl_run [GlClear m] g = g\<lparr>planes := planes (gl_run [GlClear m] g)\<rparr>"
  by (simp add: write_planes_def)

lemma bound_after_bind: "bound_framebuffer (gl_exec (GlBindFramebuffer t h) g) t = h"
  by (cases t) simp_all

lemma bound_other_role:
  "t \<noteq> ReadDraw \<Longrightarrow>
     bound_framebuffer (gl_exec (GlBindFramebuffer t h) g) (other_role t) =
     bound_framebuffer g (other_role t)"
  by (cases t) simp_all

lemma bind_fields:
  "enabled (gl_exec (GlBindFramebuffer t h) g) = enabled g"
  "names (gl_exec (GlBindFramebuffer t h) g) = names g"
  "attachments (gl_exec (GlBindFramebuffer t h) g) = attachments g"
  "planes (gl_exec (GlBindFramebuffer t h) g) = planes g"
  "clear_color (gl_exec (GlBindFramebuffer t h) g) = clear_color g"
  "clear_depth (gl_exec (GlBindFramebuffer t h) g) = clear_depth g"
  "clear_stencil (gl_exec (GlBindFramebuffer t h) g) = clear_stencil g"
  by (cases t; simp)+

lemma bind_state:
  "gl_run (bind fb Read) g = g\<lparr>read_framebuffer := framebuffer fb\<rparr>"
  "gl_run (bind fb Draw) g = g\<lparr>draw_framebuffer := framebuffer fb\<rparr>"
  "gl_run (bindDefault Read) g = g\<lparr>read_framebuffer := 0\<rparr>"
  "gl_run (bindDefault Draw) g = g\<lparr>draw_framebuffer := 0\<rparr>"
  by (simp_all add: bind_def bindDefault_def)

lemma attach_image_fields:
  "enabled (attach_image t p i g) = enabled g"
  "names (attach_image t p i g) = names g"
  "read_framebuffer (attach_image t p i g) = read_framebuffer g"
  "draw_framebuffer (attach_image t p i g) = draw_framebuffer g"
  "planes (attach_image t p i g) = planes g"
  "bound_framebuffer (attach_image t p i g) t' = bound_framebuffer g t'"
  by (simp_all add: attach_image_def) (cases t'; simp)

lemma write_planes_fields:
  "enabled (write_planes m wr g) = enabled g"
  "names (write_planes m wr g) = names g"
  "read_framebuffer (write_planes m wr g) = read_framebuffer g"
  "draw_framebuffer (write_planes m wr g) = draw_framebuffer g"
  "attachments (write_planes m wr g) = attachments g"
  by (simp_all add: write_planes_def)

lemma attachments_attach_image:
  "attachments (attach_image t p i g) (bound_framebuffer g t) p = Some i"
  by (simp add: attach_image_def)

lemma delete_state:
  "gl_run (Framebuffer_dtor fb) g =
     g\<lparr>names := names g - {framebuffer fb},
       read_framebuffer := (if read_framebuffer g = framebuffer fb then 0 else read_framebuffer g),
       draw_framebuffer := (if draw_framebuffer g = framebuffer fb then 0 else draw_framebuffer g),
       attachments := (attachments g)(framebuffer fb := Map.empty)\<rparr>"
  by (auto simp add: Framebuffer_dtor_def unbind_deleted_def fun_eq_iff)

subsection \<open>The attach functions\<close>

text \<open>
  Each of the ten attach functions issues the bind of its object and then one native
  attach call on the same role; \<open>attach\<close> ranges over the ten.
\<close>

lemma attach_calls:
  "\<exists>c. attach fb t sl res = [GlBindFramebuffer t (framebuffer fb), c]
       \<and> attach_target c = Some t
       \<and> gl_exec c = attach_image t (slot_point sl) (resource_image res)
       \<and> generated c = [] \<and> released c = []"
  by (cases sl; cases res) (simp_all add: attach_defs bind_def fun_eq_iff)

lemma gl_run_attach:
  "gl_run (attach fb t sl res) g =
     attach_image t (slot_point sl) (resource_image res)
       (gl_exec (GlBindFramebuffer t (framebuffer fb)) g)"
proof -
  obtain c where "attach fb t sl res = [GlBindFramebuffer t (framebuffer fb), c]"
    and "gl_exec c = attach_image t (slot_point sl) (resource_image res)"
    using attach_calls by blast
  then show ?thesis by simp
qed

lemma attachments_after_attach:
  "attachments (gl_run (attach fb t sl res) g) (framebuffer fb) (slot_point sl) =
     Some (resource_image res)"
proof -
  let ?b = "gl_exec (GlBindFramebuffer t (framebuffer fb)) g"
  have "bound_framebuffer ?b t = framebuffer fb" by (rule bound_after_bind)
  with attachments_attach_image [of t "slot_point sl" "resource_image res" ?b]
  show ?thesis by (simp add: gl_run_attach)
qed

lemma attachments_attach:
  "attachments (gl_run (attach fb t sl res) g) =
     (attachments g)(framebuffer fb := (attachments g (framebuffer fb))(slot_point sl \<mapsto> resource_image res))"
  by (simp add: gl_run_attach attach_image_def bound_after_bind bind_fields)

lemma attach_twice:
  "gl_run (attach fb t sl res) (gl_run (attach fb t sl res) g) = gl_run (attach fb t sl res) g"
  by (cases t) (simp_all add: gl_run_attach attach_image_def)

lemma color_points:
  "n < 16 \<Longrightarrow> GL_COLOR_ATTACHMENT0 + n \<noteq> GL_DEPTH_ATTACHMENT"
  "n < 16 \<Longrightarrow> GL_COLOR_ATTACHMENT0 + n \<noteq> GL_STENCIL_ATTACHMENT"
  "n < 16 \<Longrightarrow> GL_COLOR_ATTACHMENT0 + n \<noteq> GL_DEPTH_STENCIL_ATTACHMENT"
  for n :: "32 word"
proof -
  have sub: "a + n = b \<Longrightarrow> n = b - a" for a b :: "32 word"
    by auto
  show "n < 16 \<Longrightarrow> GL_COLOR_ATTACHMENT0 + n \<noteq> GL_DEPTH_ATTACHMENT"
    unfolding GL_COLOR_ATTACHMENT0_def GL_DEPTH_ATTACHMENT_def
    by (auto dest!: sub)
  show "n < 16 \<Longrightarrow> GL_COLOR_ATTACHMENT0 + n \<noteq> GL_STENCIL_ATTACHMENT"
    unfolding GL_COLOR_ATTACHMENT0_def GL_STENCIL_ATTACHMENT_def
    by (auto dest!: sub)
  show "n < 16 \<Longrightarrow> GL_COLOR_ATTACHMENT0 + n \<noteq> GL_DEPTH_STENCIL_ATTACHMENT"
    unfolding GL_COLOR_ATTACHMENT0_def GL_DEPTH_STENCIL_ATTACHMENT_def
    by (auto dest!: sub)
qed

subsection \<open>Programs\<close>

lemma run_append:
  "run (as @ bs) w =
     (case run as w of
        None \<Rightarrow> None
      | Some (cs, w') \<Rightarrow>
          (case run bs w' of None \<Rightarrow> None | Some (ds, w'') \<Rightarrow> Some (cs @ ds, w'')))"
  by (induction as arbitrary: w) (auto split: option.splits)

lemma run_snoc:
  "run (as @ [a]) w = Some (tr, w') \<Longrightarrow>
     \<exists>tr0 w0 cs. run as w = Some (tr0, w0) \<and> perform a w0 = Some (cs, w') \<and> tr = tr0 @ cs"
  by (auto simp add: run_append split: option.splits)

lemma run_attach_inside:
  assumes "run (as @ Attach fb t sl res # bs) w = Some (tr, w')"
  shows "\<exists>tr0 w0 w1 tr1.
           run as w = Some (tr0, w0)
         \<and> perform (Attach fb t sl res) w0 = Some (attach fb t sl res, w1)
         \<and> run bs w1 = Some (tr1, w')
         \<and> tr = tr0 @ attach fb t sl res @ tr1
         \<and> gl w1 = gl_run (attach fb t sl res) (gl w0)"
proof -
  from assms obtain tr0 w0 tr' where a: "run as w = Some (tr0, w0)"
    and b: "run (Attach fb t sl res # bs) w0 = Some (tr', w')" and tr: "tr = tr0 @ tr'"
    by (auto simp add: run_append split: option.splits)
  from b obtain cs w1 tr1 where p: "perform (Attach fb t sl res) w0 = Some (cs, w1)"
    and r: "run bs w1 = Some (tr1, w')" and tr': "tr' = cs @ tr1"
    by (auto split: option.splits)
  from p have "cs = attach fb t sl res" "gl w1 = gl_run (attach fb t sl res) (gl w0)"
    by (auto simp add: api_defs split: if_splits)
  with a p r tr tr' show ?thesis by blast
qed

lemma Vector2_eq: "vx a = vx b \<Longrightarrow> vy a = vy b \<Longrightarrow> a = b" for a b :: Vector2
  by simp

lemma Framebuffer_eq: "framebuffer a = framebuffer b \<Longrightarrow> a = b" for a b :: Framebuffer
  by simp

lemma Framebuffer_make: "\<lparr>framebuffer = framebuffer fb\<rparr> = fb" for fb :: Framebuffer
  by simp

subsection \<open>The mask of \<open>clear()\<close> follows the tests\<close>

lemma setFeature_tracks:
  "snd (setFeature f b (mask_of_tests en)) = mask_of_tests (en(f := b))"
  by (cases f; cases b; cases "en DepthTest"; cases "en StencilTest")
     (simp_all add: setFeature_def mask_of_tests_def GL_COLOR_BUFFER_BIT_def
        GL_DEPTH_BUFFER_BIT_def GL_STENCIL_BUFFER_BIT_def)

lemma setFeature_twice:
  "setFeature f b (snd (setFeature f b cm)) = setFeature f b cm"
  by (simp add: setFeature_def or_idem_word and_not_idem_word)

lemma perform_tracks:
  assumes "perform a w = Some (cs, w')" and "clearMask w = mask_of_tests (enabled (gl w))"
  shows "clearMask w' = mask_of_tests (enabled (gl w'))"
proof (cases a)
  case (SetFeature f b)
  obtain ds cm where s: "setFeature f b (clearMask w) = (ds, cm)"
    by (cases "setFeature f b (clearMask w)")
  then have "ds = [if b then GlEnable f else GlDisable f]"
    by (simp add: setFeature_def)
  moreover have "cm = mask_of_tests ((enabled (gl w))(f := b))"
    using setFeature_tracks [of f b "enabled (gl w)"] s assms(2) by simp
  ultimately show ?thesis
    using assms(1) SetFeature s by auto
next
  case (Attach fb t sl res)
  then show ?thesis
    using assms
    by (auto simp add: on_object_def issue_def gl_run_attach attach_image_fields bind_fields
        split: if_splits)
next
  case (SetClearColor c)
  then show ?thesis
    using assms by (cases c) (auto simp add: issue_def)
qed (use assms in \<open>auto simp add: api_defs write_planes_fields bind_fields split: if_splits\<close>)

lemma run_tracks:
  "run as w = Some (cs, w') \<Longrightarrow> clearMask w = mask_of_tests (enabled (gl w))
   \<Longrightarrow> clearMask w' = mask_of_tests (enabled (gl w'))"
proof (induction as arbitrary: w cs)
  case Nil
  then show ?case by simp
next
  case (Cons a as)
  from Cons.prems(1) obtain c1 w1 c2 where
    p: "perform a w = Some (c1, w1)" and r: "run as w1 = Some (c2, w')"
    by (auto split: option.splits)
  from perform_tracks [OF p Cons.prems(2)] Cons.IH [OF r] show ?case by blast
qed

lemma initial_tracks: "clearMask initial_world = mask_of_tests (enabled (gl initial_world))"
  by (simp add: initial_world_def initial_gl_def initial_clearMask_def mask_of_tests_def)

text \<open>
  C1. In every state a program reaches from the initial one, \<open>clear()\<close> issues one native
  clear with the static mask, and that mask holds the colour bit, the depth bit exactly
  when \<open>DepthTest\<close> is enabled and the stencil bit exactly when \<open>StencilTest\<close> is
  enabled. On the native state: the colour plane of the Draw-bound target receives a clear
  with the current clear colour; its depth plane receives a clear with the current clear
  depth if \<open>DepthTest\<close> is enabled and is untouched otherwise; likewise the stencil plane
  with \<open>StencilTest\<close>; the planes of every other target are untouched. (\<open>setFeature\<close>
  and the initial mask are modelled from the spec.)
\<close>

theorem clear_follows_tests:
  assumes "run as initial_world = Some (tr, w)"
  shows "\<exists>w'. perform ClearAll w = Some ([GlClear (clearMask w)], w')
     \<and> in_mask ColorPlane (clearMask w)
     \<and> (in_mask DepthPlane (clearMask w) \<longleftrightarrow> enabled (gl w) DepthTest)
     \<and> (in_mask StencilPlane (clearMask w) \<longleftrightarrow> enabled (gl w) StencilTest)
     \<and> planes (gl w') (draw_framebuffer (gl w)) ColorPlane =
         planes (gl w) (draw_framebuffer (gl w)) ColorPlane @ [ClearedColor (clear_color (gl w))]
     \<and> planes (gl w') (draw_framebuffer (gl w)) DepthPlane =
         (if enabled (gl w) DepthTest
          then planes (gl w) (draw_framebuffer (gl w)) DepthPlane @ [ClearedDepth (clear_depth (gl w))]
          else planes (gl w) (draw_framebuffer (gl w)) DepthPlane)
     \<and> planes (gl w') (draw_framebuffer (gl w)) StencilPlane =
         (if enabled (gl w) StencilTest
          then planes (gl w) (draw_framebuffer (gl w)) StencilPlane @ [ClearedStencil (clear_stencil (gl w))]
          else planes (gl w) (draw_framebuffer (gl w)) StencilPlane)
     \<and> (\<forall>fb p. fb \<noteq> draw_framebuffer (gl w) \<longrightarrow> planes (gl w') fb p = planes (gl w) fb p)"
proof -
  have m: "clearMask w = mask_of_tests (enabled (gl w))"
    using run_tracks [OF assms initial_tracks] .
  let ?w' = "w\<lparr>gl := gl_run [GlClear (clearMask w)] (gl w)\<rparr>"
  have p: "perform ClearAll w = Some ([GlClear (clearMask w)], ?w')"
    by (simp add: clear_def issue_def)
  have pl: "\<And>fb p. planes (gl ?w') fb p =
     (if fb = draw_framebuffer (gl w) \<and> in_mask p (clearMask w)
      then planes (gl w) fb p @ [clear_write (gl w) p] else planes (gl w) fb p)"
    by (simp add: write_planes_def)
  have im: "in_mask ColorPlane (clearMask w)"
    "in_mask DepthPlane (clearMask w) \<longleftrightarrow> enabled (gl w) DepthTest"
    "in_mask StencilPlane (clearMask w) \<longleftrightarrow> enabled (gl w) StencilTest"
    unfolding m by (rule in_mask_tests)+
  have c: "planes (gl ?w') (draw_framebuffer (gl w)) ColorPlane =
         planes (gl w) (draw_framebuffer (gl w)) ColorPlane @ [ClearedColor (clear_color (gl w))]"
    unfolding pl using im by simp
  have d: "planes (gl ?w') (draw_framebuffer (gl w)) DepthPlane =
         (if enabled (gl w) DepthTest
          then planes (gl w) (draw_framebuffer (gl w)) DepthPlane @ [ClearedDepth (clear_depth (gl w))]
          else planes (gl w) (draw_framebuffer (gl w)) DepthPlane)"
    unfolding pl using im by simp
  have s: "planes (gl ?w') (draw_framebuffer (gl w)) StencilPlane =
         (if enabled (gl w) StencilTest
          then planes (gl w) (draw_framebuffer (gl w)) StencilPlane @ [ClearedStencil (clear_stencil (gl w))]
          else planes (gl w) (draw_framebuffer (gl w)) StencilPlane)"
    unfolding pl using im by simp
  have o: "\<forall>fb p. fb \<noteq> draw_framebuffer (gl w) \<longrightarrow> planes (gl ?w') fb p = planes (gl w) fb p"
    unfolding pl by simp
  from p im c d s o show ?thesis by blast
qed

theorem clear_follows_tests_witness:
  "\<exists>tr w w'.
     run [Construct 1, Bind \<lparr>framebuffer = 1\<rparr> Draw, SetFeature DepthTest True] initial_world
       = Some (tr, w)
     \<and> perform ClearAll w = Some ([GlClear 0x4100], w')
     \<and> planes (gl w') 1 ColorPlane = [ClearedColor (0, 0, 0, 1)]
     \<and> planes (gl w') 1 DepthPlane = [ClearedDepth 1]
     \<and> planes (gl w') 1 StencilPlane = []"
proof -
  let ?as = "[Construct 1, Bind \<lparr>framebuffer = 1\<rparr> Draw, SetFeature DepthTest True]"
  define w where "w = snd (the (run ?as initial_world))"
  define tr where "tr = fst (the (run ?as initial_world))"
  have r: "run ?as initial_world = Some (tr, w)"
    unfolding w_def tr_def by (simp add: eval_defs)
  have f: "clearMask w = 0x4100" "enabled (gl w) DepthTest" "\<not> enabled (gl w) StencilTest"
    "draw_framebuffer (gl w) = 1" "planes (gl w) = (\<lambda>fb p. [])"
    "clear_color (gl w) = (0, 0, 0, 1)" "clear_depth (gl w) = 1"
    unfolding w_def by (simp_all add: eval_defs)
  from clear_follows_tests [OF r] f r show ?thesis
    by auto
qed

subsection \<open>Attach binds first\<close>

lemma binds_first_append:
  "\<forall>prev. binds_first prev ds \<Longrightarrow> binds_first prev cs \<Longrightarrow> binds_first prev (cs @ ds)"
  by (induction cs arbitrary: prev) simp_all

lemma binds_first_closed_append:
  assumes "\<forall>prev. binds_first prev cs" and "\<forall>prev. binds_first prev ds"
  shows "\<forall>prev. binds_first prev (cs @ ds)"
  using assms binds_first_append by blast

lemma binds_first_attach: "binds_first prev (attach fb t sl res)"
proof -
  obtain c where "attach fb t sl res = [GlBindFramebuffer t (framebuffer fb), c]"
    and "attach_target c = Some t"
    using attach_calls by blast
  then show ?thesis by simp
qed

lemma perform_binds_first:
  assumes "perform a w = Some (cs, w')"
  shows "\<forall>prev. binds_first prev cs"
proof (cases a)
  case (Attach fb t sl res)
  then show ?thesis
    using assms binds_first_attach by (auto simp add: api_defs split: if_splits)
next
  case (SetClearColor c)
  then show ?thesis
    using assms by (cases c) (auto simp add: issue_def)
next
  case (SetFeature f b)
  then show ?thesis
    using assms by (auto simp add: setFeature_def)
qed (use assms in \<open>auto simp add: api_defs split: if_splits\<close>)

lemma run_binds_first:
  "run as w = Some (tr, w') \<Longrightarrow> \<forall>prev. binds_first prev tr"
proof (induction as arbitrary: w tr)
  case Nil
  then show ?case by simp
next
  case (Cons a as)
  from Cons.prems obtain c1 w1 c2 where
    p: "perform a w = Some (c1, w1)" and r: "run as w1 = Some (c2, w')" and tr: "tr = c1 @ c2"
    by (auto split: option.splits)
  from binds_first_closed_append [OF perform_binds_first [OF p] Cons.IH [OF r]] tr
  show ?case by simp
qed

text \<open>
  C2. Every attach function, for every object, role, slot and resource, issues the bind of
  the object it is invoked on to the given role and then exactly one native attach call on
  that role. When that attach call executes, the target bound to the role is the object
  invoked on, so the resource arrives in the slot of that object, whatever was bound
  before. In the calls of any program every native attach call comes right after a bind
  of the role it addresses; and an attach anywhere in a program, after any interleaving of
  binds of other targets, issues its bind and its native attach next to each other, with
  its own object bound to the role in between, and leaves the resource in the slot of its
  own object.
\<close>

theorem attach_binds_first:
  "(\<exists>c. attach fb t sl res = bind fb t @ [c] \<and> attach_target c = Some t
        \<and> bind fb t = [GlBindFramebuffer t (framebuffer fb)])
   \<and> bound_framebuffer (gl_run (bind fb t) g) t = framebuffer fb
   \<and> attachments (gl_run (attach fb t sl res) g) (framebuffer fb) (slot_point sl) =
       Some (resource_image res)
   \<and> (\<forall>as w tr w'. run as w = Some (tr, w') \<longrightarrow> binds_first None tr)
   \<and> (\<forall>as bs w tr w'. run (as @ Attach fb t sl res # bs) w = Some (tr, w') \<longrightarrow>
         (\<exists>tr0 w0 c w1 tr1.
             run as w = Some (tr0, w0)
           \<and> perform (Attach fb t sl res) w0 =
               Some ([GlBindFramebuffer t (framebuffer fb), c], w1)
           \<and> attach_target c = Some t
           \<and> bound_framebuffer (gl_exec (GlBindFramebuffer t (framebuffer fb)) (gl w0)) t =
               framebuffer fb
           \<and> attachments (gl w1) (framebuffer fb) (slot_point sl) = Some (resource_image res)
           \<and> run bs w1 = Some (tr1, w')
           \<and> tr = tr0 @ [GlBindFramebuffer t (framebuffer fb), c] @ tr1))"
proof -
  obtain c where c: "attach fb t sl res = [GlBindFramebuffer t (framebuffer fb), c]"
    "attach_target c = Some t"
    using attach_calls by blast
  then have 1: "\<exists>c. attach fb t sl res = bind fb t @ [c] \<and> attach_target c = Some t
        \<and> bind fb t = [GlBindFramebuffer t (framebuffer fb)]"
    by (simp add: bind_def)
  have 2: "bound_framebuffer (gl_run (bind fb t) g) t = framebuffer fb"
    by (simp add: bind_def bound_after_bind)
  note 3 = attachments_after_attach [of fb t sl res g]
  have 4: "\<forall>as w tr w'. run as w = Some (tr, w') \<longrightarrow> binds_first None tr"
    using run_binds_first by blast
  have 5: "\<forall>as bs w tr w'. run (as @ Attach fb t sl res # bs) w = Some (tr, w') \<longrightarrow>
         (\<exists>tr0 w0 c w1 tr1.
             run as w = Some (tr0, w0)
           \<and> perform (Attach fb t sl res) w0 =
               Some ([GlBindFramebuffer t (framebuffer fb), c], w1)
           \<and> attach_target c = Some t
           \<and> bound_framebuffer (gl_exec (GlBindFramebuffer t (framebuffer fb)) (gl w0)) t =
               framebuffer fb
           \<and> attachments (gl w1) (framebuffer fb) (slot_point sl) = Some (resource_image res)
           \<and> run bs w1 = Some (tr1, w')
           \<and> tr = tr0 @ [GlBindFramebuffer t (framebuffer fb), c] @ tr1)"
  proof (intro allI impI)
    fix as bs w tr w'
    assume "run (as @ Attach fb t sl res # bs) w = Some (tr, w')"
    from run_attach_inside [OF this] obtain tr0 w0 w1 tr1 where
      r: "run as w = Some (tr0, w0)"
      "perform (Attach fb t sl res) w0 = Some (attach fb t sl res, w1)"
      "run bs w1 = Some (tr1, w')" "tr = tr0 @ attach fb t sl res @ tr1"
      "gl w1 = gl_run (attach fb t sl res) (gl w0)"
      by blast
    have "attachments (gl w1) (framebuffer fb) (slot_point sl) = Some (resource_image res)"
      using r(5) attachments_after_attach [of fb t sl res "gl w0"] by simp
    with r c bound_after_bind [of t "framebuffer fb" "gl w0"]
    show "\<exists>tr0 w0 c w1 tr1.
             run as w = Some (tr0, w0)
           \<and> perform (Attach fb t sl res) w0 =
               Some ([GlBindFramebuffer t (framebuffer fb), c], w1)
           \<and> attach_target c = Some t
           \<and> bound_framebuffer (gl_exec (GlBindFramebuffer t (framebuffer fb)) (gl w0)) t =
               framebuffer fb
           \<and> attachments (gl w1) (framebuffer fb) (slot_point sl) = Some (resource_image res)
           \<and> run bs w1 = Some (tr1, w')
           \<and> tr = tr0 @ [GlBindFramebuffer t (framebuffer fb), c] @ tr1"
      by (metis append_Cons append_Nil)
  qed
  from 1 2 3 4 5 show ?thesis by blast
qed

theorem attach_binds_first_witness:
  "attach \<lparr>framebuffer = 1\<rparr> Draw (ColorSlot 0) (RenderbufferResource \<lparr>Renderbuffer_id = 5\<rparr>) =
     [GlBindFramebuffer Draw 1, GlFramebufferRenderbuffer Draw 0x8CE0 0x8D41 5]
   \<and> attachments
        (gl_run (attach \<lparr>framebuffer = 1\<rparr> Draw (ColorSlot 0)
                   (RenderbufferResource \<lparr>Renderbuffer_id = 5\<rparr>))
           (gl_run (bind \<lparr>framebuffer = 2\<rparr> Draw) initial_gl)) 1 0x8CE0 =
      Some (RenderbufferImage 0x8D41 5)
   \<and> (\<exists>tr w. run [Construct 1, Construct 2, Bind \<lparr>framebuffer = 2\<rparr> Draw,
                   Attach \<lparr>framebuffer = 1\<rparr> Draw (ColorSlot 0)
                     (RenderbufferResource \<lparr>Renderbuffer_id = 5\<rparr>)] initial_world = Some (tr, w)
          \<and> binds_first None tr
          \<and> attachments (gl w) 1 0x8CE0 = Some (RenderbufferImage 0x8D41 5)
          \<and> attachments (gl w) 2 0x8CE0 = None)"
proof -
  let ?A = "\<lparr>framebuffer = 1\<rparr>" and ?B = "\<lparr>framebuffer = 2\<rparr>"
  let ?res = "RenderbufferResource \<lparr>Renderbuffer_id = 5\<rparr>"
  let ?as = "[Construct 1, Construct 2, Bind ?B Draw, Attach ?A Draw (ColorSlot 0) ?res]"
  define w where "w = snd (the (run ?as initial_world))"
  define tr where "tr = fst (the (run ?as initial_world))"
  have r: "run ?as initial_world = Some (tr, w)"
    unfolding w_def tr_def by (simp add: eval_defs)
  have n: "attachments (gl w) 2 0x8CE0 = None" "attachments (gl w) 1 0x8CE0 = Some (RenderbufferImage 0x8D41 5)"
    unfolding w_def by (simp_all add: eval_defs)
  note t = attach_binds_first [of ?A Draw "ColorSlot 0" ?res "gl_run (bind ?B Draw) initial_gl"]
  from t r have "binds_first None tr" by blast
  moreover from t have "attachments
        (gl_run (attach ?A Draw (ColorSlot 0) ?res) (gl_run (bind ?B Draw) initial_gl))
        (framebuffer ?A) (slot_point (ColorSlot 0)) = Some (resource_image ?res)" by blast
  ultimately show ?thesis
    using r n by (simp add: attach_defs bind_def gl_constants)
qed

subsection \<open>The two blits\<close>

text \<open>
  C3. For every rectangle and mask, \<open>blit(rect, mask)\<close> issues the same native call as
  \<open>blit(rect, rect, mask, NearestNeighbor)\<close>, takes a program to the same state, and has
  the same effect under any native layer that is a function of the calls it receives.
\<close>

theorem blit_rectangle_is_nearest_blit:
  "blit_rectangle bottomLeft topRight blitMask =
     blit bottomLeft topRight bottomLeft topRight blitMask NearestNeighbor
   \<and> perform (BlitRectangle bottomLeft topRight blitMask) w =
     perform (BlitRectangles bottomLeft topRight bottomLeft topRight blitMask NearestNeighbor) w
   \<and> (\<forall>native g. fold native (blit_rectangle bottomLeft topRight blitMask) g =
        fold native (blit bottomLeft topRight bottomLeft topRight blitMask NearestNeighbor) g)"
  by (simp add: blit_rectangle_def blit_def)

theorem blit_rectangle_is_nearest_blit_witness:
  "blit_rectangle \<lparr>vx = - 5, vy = 0\<rparr> \<lparr>vx = 640, vy = 480\<rparr> (BlitMask_of [Blit.Color, Blit.Depth]) =
     blit \<lparr>vx = - 5, vy = 0\<rparr> \<lparr>vx = 640, vy = 480\<rparr> \<lparr>vx = - 5, vy = 0\<rparr> \<lparr>vx = 640, vy = 480\<rparr>
       (BlitMask_of [Blit.Color, Blit.Depth]) NearestNeighbor
   \<and> blit_rectangle \<lparr>vx = - 5, vy = 0\<rparr> \<lparr>vx = 640, vy = 480\<rparr> (BlitMask_of [Blit.Color, Blit.Depth]) =
     [GlBlitFramebuffer (- 5) 0 640 480 (- 5) 0 640 480 0x4100 NearestNeighbor]"
  using blit_rectangle_is_nearest_blit [of "\<lparr>vx = - 5, vy = 0\<rparr>" "\<lparr>vx = 640, vy = 480\<rparr>"
      "BlitMask_of [Blit.Color, Blit.Depth]" initial_world]
  by (simp add: blit_def blit_rectangle_def gl_constants)

subsection \<open>Binding a role\<close>

lemma binds_only_step:
  assumes "binds_only t a" and "t \<noteq> ReadDraw" and "perform a w = Some (cs, w')"
  shows "bound_framebuffer (gl w') (other_role t) = bound_framebuffer (gl w) (other_role t)"
  using assms
  by (cases a) (auto simp add: api_defs bound_other_role split: if_splits)

lemma binds_only_run:
  "\<forall>a\<in>set as. binds_only t a \<Longrightarrow> t \<noteq> ReadDraw \<Longrightarrow> run as w = Some (cs, w')
   \<Longrightarrow> bound_framebuffer (gl w') (other_role t) = bound_framebuffer (gl w) (other_role t)"
proof (induction as arbitrary: w cs)
  case Nil
  then show ?case by simp
next
  case (Cons a as)
  from Cons.prems(3) obtain c1 w1 c2 where
    p: "perform a w = Some (c1, w1)" and r: "run as w1 = Some (c2, w')"
    by (auto split: option.splits)
  have "bound_framebuffer (gl w1) (other_role t) = bound_framebuffer (gl w) (other_role t)"
    using binds_only_step [OF _ Cons.prems(2) p] Cons.prems(1) by simp
  moreover have "bound_framebuffer (gl w') (other_role t) = bound_framebuffer (gl w1) (other_role t)"
    using Cons.IH [OF _ Cons.prems(2) r] Cons.prems(1) by simp
  ultimately show ?case by simp
qed

text \<open>
  C4. \<open>bind(Read)\<close> changes the native state in the Read binding only, which becomes the
  object's handle; \<open>bind(Draw)\<close> in the Draw binding only; \<open>bindDefault\<close> likewise
  sets the one binding to the default target \<open>0\<close>. For a role \<open>t\<close> of the two: after
  \<open>bind\<close> the object is bound to \<open>t\<close> and the other role's binding is what it was; at
  the end of any program that ends with a bind of \<open>t\<close> the object (or the default target)
  is bound to \<open>t\<close>; and any sequence of binds of \<open>t\<close> leaves the other role's binding
  unchanged.
\<close>

theorem bind_sets_one_role:
  assumes "t = Read \<or> t = Draw"
  shows "gl_run (bind fb Read) g = g\<lparr>read_framebuffer := framebuffer fb\<rparr>
    \<and> gl_run (bind fb Draw) g = g\<lparr>draw_framebuffer := framebuffer fb\<rparr>
    \<and> gl_run (bindDefault Read) g = g\<lparr>read_framebuffer := 0\<rparr>
    \<and> gl_run (bindDefault Draw) g = g\<lparr>draw_framebuffer := 0\<rparr>
    \<and> bound_framebuffer (gl_run (bind fb t) g) t = framebuffer fb
    \<and> bound_framebuffer (gl_run (bind fb t) g) (other_role t) = bound_framebuffer g (other_role t)
    \<and> bound_framebuffer (gl_run (bindDefault t) g) t = 0
    \<and> bound_framebuffer (gl_run (bindDefault t) g) (other_role t) = bound_framebuffer g (other_role t)
    \<and> (\<forall>as w tr w'. run (as @ [Bind fb t]) w = Some (tr, w') \<longrightarrow>
          bound_framebuffer (gl w') t = framebuffer fb)
    \<and> (\<forall>as w tr w'. run (as @ [BindDefault t]) w = Some (tr, w') \<longrightarrow>
          bound_framebuffer (gl w') t = 0)
    \<and> (\<forall>as w tr w'. (\<forall>a\<in>set as. binds_only t a) \<longrightarrow> run as w = Some (tr, w') \<longrightarrow>
          bound_framebuffer (gl w') (other_role t) = bound_framebuffer (gl w) (other_role t))"
proof -
  have t: "t \<noteq> ReadDraw" using assms by auto
  have 1: "bound_framebuffer (gl_run (bind fb t) g) t = framebuffer fb"
    by (simp add: bind_def bound_after_bind)
  have 2: "bound_framebuffer (gl_run (bind fb t) g) (other_role t) = bound_framebuffer g (other_role t)"
    by (simp add: bind_def bound_other_role [OF t])
  have 3: "bound_framebuffer (gl_run (bindDefault t) g) t = 0"
    by (simp add: bindDefault_def bound_after_bind)
  have 4: "bound_framebuffer (gl_run (bindDefault t) g) (other_role t) = bound_framebuffer g (other_role t)"
    by (simp add: bindDefault_def bound_other_role [OF t])
  have 5: "\<forall>as w tr w'. run (as @ [Bind fb t]) w = Some (tr, w') \<longrightarrow>
          bound_framebuffer (gl w') t = framebuffer fb"
    by (auto dest!: run_snoc simp add: api_defs bound_after_bind split: if_splits)
  have 6: "\<forall>as w tr w'. run (as @ [BindDefault t]) w = Some (tr, w') \<longrightarrow>
          bound_framebuffer (gl w') t = 0"
    by (auto dest!: run_snoc simp add: api_defs bound_after_bind split: if_splits)
  have 7: "\<forall>as w tr w'. (\<forall>a\<in>set as. binds_only t a) \<longrightarrow> run as w = Some (tr, w') \<longrightarrow>
          bound_framebuffer (gl w') (other_role t) = bound_framebuffer (gl w) (other_role t)"
    using binds_only_run [OF _ t] by blast
  from bind_state 1 2 3 4 5 6 7 show ?thesis by blast
qed

theorem bind_sets_one_role_witness:
  "(Read = Read \<or> Read = Draw)
   \<and> bound_framebuffer (gl_run (bind \<lparr>framebuffer = 7\<rparr> Read) initial_gl) Read = 7
   \<and> bound_framebuffer (gl_run (bind \<lparr>framebuffer = 7\<rparr> Read) initial_gl) Draw = 0
   \<and> (\<exists>tr w. run [Construct 7, Construct 8, Bind \<lparr>framebuffer = 8\<rparr> Draw,
                   Bind \<lparr>framebuffer = 8\<rparr> Read, Bind \<lparr>framebuffer = 7\<rparr> Read] initial_world
                = Some (tr, w)
          \<and> read_framebuffer (gl w) = 7 \<and> draw_framebuffer (gl w) = 8)"
proof -
  let ?as = "[Construct 7, Construct 8, Bind \<lparr>framebuffer = 8\<rparr> Draw, Bind \<lparr>framebuffer = 8\<rparr> Read]"
  define w where "w = snd (the (run (?as @ [Bind \<lparr>framebuffer = 7\<rparr> Read]) initial_world))"
  define tr where "tr = fst (the (run (?as @ [Bind \<lparr>framebuffer = 7\<rparr> Read]) initial_world))"
  have r: "run (?as @ [Bind \<lparr>framebuffer = 7\<rparr> Read]) initial_world = Some (tr, w)"
    unfolding w_def tr_def by (simp add: eval_defs)
  have d: "draw_framebuffer (gl w) = 8"
    unfolding w_def by (simp add: eval_defs)
  have h: "Read = Read \<or> Read = Draw" by simp
  note t = bind_sets_one_role [OF h, of "\<lparr>framebuffer = 7\<rparr>" initial_gl]
  from t r have "bound_framebuffer (gl w) Read = framebuffer \<lparr>framebuffer = 7\<rparr>" by blast
  moreover from t have
    "bound_framebuffer (gl_run (bind \<lparr>framebuffer = 7\<rparr> Read) initial_gl) Read = framebuffer \<lparr>framebuffer = 7\<rparr>"
    "bound_framebuffer (gl_run (bind \<lparr>framebuffer = 7\<rparr> Read) initial_gl) (other_role Read) =
       bound_framebuffer initial_gl (other_role Read)"
    by blast+
  ultimately show ?thesis
    using r d by (simp add: initial_gl_def)
qed

subsection \<open>The masked clear\<close>

text \<open>
  C5. For every combination \<open>cs\<close> of \<open>Color\<close>, \<open>Depth\<close> and \<open>Stencil\<close>, \<open>clear(mask)\<close>
  issues one native clear with exactly that mask. The plane an enumerator names, of the
  Draw-bound target, receives a clear with the current clear value if the enumerator is
  in \<open>cs\<close> and is untouched otherwise; planes of other targets are untouched; nothing but
  the planes changes; and the result does not depend on the enabled features.
\<close>

theorem clear_mask_names_buffers:
  "clear_mask (ClearMask_of cs) = [GlClear (ClearMask_of cs)]
   \<and> planes (gl_run (clear_mask (ClearMask_of cs)) g) (draw_framebuffer g) (clear_plane c) =
       (if c \<in> set cs
        then planes g (draw_framebuffer g) (clear_plane c) @ [clear_write g (clear_plane c)]
        else planes g (draw_framebuffer g) (clear_plane c))
   \<and> (\<forall>fb p. fb \<noteq> draw_framebuffer g \<longrightarrow>
         planes (gl_run (clear_mask (ClearMask_of cs)) g) fb p = planes g fb p)
   \<and> planes (gl_run (clear_mask (ClearMask_of cs)) (g\<lparr>enabled := en\<rparr>)) =
       planes (gl_run (clear_mask (ClearMask_of cs)) g)
   \<and> gl_run (clear_mask (ClearMask_of cs)) g =
       g\<lparr>planes := planes (gl_run (clear_mask (ClearMask_of cs)) g)\<rparr>"
proof -
  let ?m = "ClearMask_of cs"
  have 1: "clear_mask ?m = [GlClear ?m]"
    by (simp add: clear_mask_def)
  have 2: "planes (gl_run [GlClear ?m] g) (draw_framebuffer g) (clear_plane c) =
       (if c \<in> set cs
        then planes g (draw_framebuffer g) (clear_plane c) @ [clear_write g (clear_plane c)]
        else planes g (draw_framebuffer g) (clear_plane c))"
    by (simp only: planes_clear in_mask_ClearMask_of) simp
  have 3: "\<forall>fb p. fb \<noteq> draw_framebuffer g \<longrightarrow> planes (gl_run [GlClear ?m] g) fb p = planes g fb p"
    by (simp only: planes_clear) simp
  have 4: "planes (gl_run [GlClear ?m] (g\<lparr>enabled := en\<rparr>)) = planes (gl_run [GlClear ?m] g)"
    by (simp add: write_planes_def clear_write_enabled cong: if_cong)
  note 5 = clear_only_planes [of ?m g]
  from 2 3 4 5 show ?thesis
    unfolding 1 by (intro conjI) (rule refl)
qed

theorem clear_mask_names_buffers_witness:
  "clear_mask (ClearMask_of [Clear.Depth]) = [GlClear 0x100]
   \<and> \<not> enabled initial_gl DepthTest
   \<and> planes (gl_run (clear_mask (ClearMask_of [Clear.Depth])) initial_gl) 0 DepthPlane = [ClearedDepth 1]
   \<and> planes (gl_run (clear_mask (ClearMask_of [Clear.Depth])) initial_gl) 0 ColorPlane = []"
proof -
  note d = clear_mask_names_buffers [of "[Clear.Depth]" initial_gl Clear.Depth, THEN conjunct2,
      THEN conjunct1]
  note c = clear_mask_names_buffers [of "[Clear.Depth]" initial_gl Clear.Color, THEN conjunct2,
      THEN conjunct1]
  note f = clear_mask_names_buffers [of "[Clear.Depth]", THEN conjunct1]
  have i: "draw_framebuffer initial_gl = 0" "planes initial_gl = (\<lambda>fb p. [])"
    "clear_depth initial_gl = 1" "\<not> enabled initial_gl DepthTest"
    by (simp_all add: initial_gl_def)
  from d c f i show ?thesis
    by (simp add: gl_constants)
qed

subsection \<open>Attaching to a colour slot\<close>

text \<open>
  C6. The class keeps no table of attachments (its members are \<open>clearMask\<close> and
  \<open>framebuffer\<close>) and declares no query; the contents of a target's slots are the native
  layer's. For a colour slot \<open>n < 16\<close>: after an attach to slot \<open>n\<close> of an object, the
  native layer holds exactly the attached resource reference at attachment point
  \<open>GL_COLOR_ATTACHMENT0 + n\<close> of that object; every other colour slot, the depth, stencil
  and depth-stencil slots of the object and all slots of other targets hold what they held
  before; and attaching the same resource again changes nothing.
\<close>

theorem attach_color_slot_round_trip:
  assumes "n < 16"
  shows "attachments (gl_run (attach fb t (ColorSlot n) res) g) (framebuffer fb)
           (GL_COLOR_ATTACHMENT0 + n) = Some (resource_image res)
   \<and> (\<forall>m. m \<noteq> n \<longrightarrow>
         attachments (gl_run (attach fb t (ColorSlot n) res) g) (framebuffer fb)
           (GL_COLOR_ATTACHMENT0 + m) = attachments g (framebuffer fb) (GL_COLOR_ATTACHMENT0 + m))
   \<and> (\<forall>d. attachments (gl_run (attach fb t (ColorSlot n) res) g) (framebuffer fb)
           (DepthStencilAttachment_GLenum d) =
          attachments g (framebuffer fb) (DepthStencilAttachment_GLenum d))
   \<and> (\<forall>h. h \<noteq> framebuffer fb \<longrightarrow>
         attachments (gl_run (attach fb t (ColorSlot n) res) g) h = attachments g h)
   \<and> gl_run (attach fb t (ColorSlot n) res) (gl_run (attach fb t (ColorSlot n) res) g) =
       gl_run (attach fb t (ColorSlot n) res) g
   \<and> (\<forall>w cs w'. perform (Attach fb t (ColorSlot n) res) w = Some (cs, w') \<longrightarrow>
         attachments (gl w') (framebuffer fb) (GL_COLOR_ATTACHMENT0 + n) = Some (resource_image res))"
proof -
  let ?g = "gl_run (attach fb t (ColorSlot n) res) g"
  have 1: "attachments ?g (framebuffer fb) (GL_COLOR_ATTACHMENT0 + n) = Some (resource_image res)"
    by (simp add: attachments_attach)
  have 2: "\<forall>m. m \<noteq> n \<longrightarrow> attachments ?g (framebuffer fb) (GL_COLOR_ATTACHMENT0 + m) =
      attachments g (framebuffer fb) (GL_COLOR_ATTACHMENT0 + m)"
    by (simp add: attachments_attach)
  have 3: "\<forall>d. attachments ?g (framebuffer fb) (DepthStencilAttachment_GLenum d) =
          attachments g (framebuffer fb) (DepthStencilAttachment_GLenum d)"
  proof
    fix d
    have "GL_COLOR_ATTACHMENT0 + n \<noteq> DepthStencilAttachment_GLenum d"
      using color_points [OF assms] by (cases d) simp_all
    then show "attachments ?g (framebuffer fb) (DepthStencilAttachment_GLenum d) =
          attachments g (framebuffer fb) (DepthStencilAttachment_GLenum d)"
      by (simp add: attachments_attach)
  qed
  have 4: "\<forall>h. h \<noteq> framebuffer fb \<longrightarrow> attachments ?g h = attachments g h"
    by (simp add: attachments_attach)
  note 5 = attach_twice [of fb t "ColorSlot n" res g]
  have 6: "\<forall>w cs w'. perform (Attach fb t (ColorSlot n) res) w = Some (cs, w') \<longrightarrow>
         attachments (gl w') (framebuffer fb) (GL_COLOR_ATTACHMENT0 + n) = Some (resource_image res)"
    by (auto simp add: api_defs attachments_attach split: if_splits)
  from 1 2 3 4 5 6 show ?thesis by blast
qed

theorem attach_color_slot_round_trip_witness:
  "(15 :: 32 word) < 16
   \<and> attachments
       (gl_run (attach \<lparr>framebuffer = 1\<rparr> Read (ColorSlot 15)
                  (Texture2DResource \<lparr>Texture_target = 0x0DE1, Texture_id = 9\<rparr> 2)) initial_gl)
       1 0x8CEF = Some (TextureImage 0x0DE1 9 2 None)
   \<and> attachments
       (gl_run (attach \<lparr>framebuffer = 1\<rparr> Read (ColorSlot 15)
                  (Texture2DResource \<lparr>Texture_target = 0x0DE1, Texture_id = 9\<rparr> 2)) initial_gl)
       1 0x8D00 = None"
proof -
  have h: "(15 :: 32 word) < 16" by simp
  note t = attach_color_slot_round_trip [OF h, of "\<lparr>framebuffer = 1\<rparr>" Read
      "Texture2DResource \<lparr>Texture_target = 0x0DE1, Texture_id = 9\<rparr> 2" initial_gl]
  from t have "attachments
       (gl_run (attach \<lparr>framebuffer = 1\<rparr> Read (ColorSlot 15)
                  (Texture2DResource \<lparr>Texture_target = 0x0DE1, Texture_id = 9\<rparr> 2)) initial_gl)
       (framebuffer \<lparr>framebuffer = 1\<rparr>) (GL_COLOR_ATTACHMENT0 + 15) =
       Some (resource_image (Texture2DResource \<lparr>Texture_target = 0x0DE1, Texture_id = 9\<rparr> 2))"
    by blast
  moreover from t have "attachments
       (gl_run (attach \<lparr>framebuffer = 1\<rparr> Read (ColorSlot 15)
                  (Texture2DResource \<lparr>Texture_target = 0x0DE1, Texture_id = 9\<rparr> 2)) initial_gl)
       (framebuffer \<lparr>framebuffer = 1\<rparr>) (DepthStencilAttachment_GLenum DepthStencilAttachment.Depth) =
       attachments initial_gl (framebuffer \<lparr>framebuffer = 1\<rparr>)
         (DepthStencilAttachment_GLenum DepthStencilAttachment.Depth)"
    by blast
  ultimately show ?thesis
    by (simp add: gl_constants initial_gl_def)
qed

subsection \<open>Parameters are handed on\<close>

text \<open>
  C7. For every input, \<open>blit\<close>, \<open>blit(rect, mask)\<close>, \<open>mapForRead\<close>,
  \<open>mapDefaultForRead\<close> (the header's code) and \<open>read\<close>, \<open>mapForDraw\<close> (modelled from
  the spec) issue native calls that carry the caller's parameters as given: there is no
  branch that checks, clamps or rejects. \<open>mapForRead(n)\<close> selects the read buffer
  \<open>GL_COLOR_ATTACHMENT0 + n\<close> in 32-bit unsigned arithmetic, that is
  \<open>(36064 + n) mod 2\<^sup>3\<^sup>2\<close>. Different parameters give different native calls, and a
  program step with these functions is never refused.
\<close>

theorem parameters_forwarded_unchecked:
  "blit a b c d m f =
     [GlBlitFramebuffer (vx a) (vy a) (vx b) (vy b) (vx c) (vy c) (vx d) (vy d) m f]
   \<and> blit_rectangle a b m =
     [GlBlitFramebuffer (vx a) (vy a) (vx b) (vy b) (vx a) (vy a) (vx b) (vy b) m NearestNeighbor]
   \<and> mapForRead fb n = [GlBindFramebuffer Read (framebuffer fb), GlReadBuffer (GL_COLOR_ATTACHMENT0 + n)]
   \<and> unat (GL_COLOR_ATTACHMENT0 + n) = (36064 + unat n) mod 2 ^ 32
   \<and> mapDefaultForRead da = [GlBindFramebuffer Read 0, GlReadBuffer (DefaultReadAttachment_GLenum da)]
   \<and> read a b cs ct = [GlReadPixels (vx a) (vy a) (vx b) (vy b) cs ct ClientMemory]
   \<and> read_buffered a b cs ct u = [GlReadPixels (vx a) (vy a) (vx b) (vy b) cs ct (PixelBuffer u)]
   \<and> (\<exists>bs. mapForDraw fb ns = [GlBindFramebuffer Draw (framebuffer fb), GlDrawBuffers bs]
          \<and> length bs = length ns
          \<and> (\<forall>i<length ns. ns ! i \<noteq> - 1 \<longrightarrow> bs ! i = GL_COLOR_ATTACHMENT0 + ns ! i))
   \<and> (blit a b c d m f = blit a' b' c' d' m' f' \<longrightarrow>
         a = a' \<and> b = b' \<and> c = c' \<and> d = d' \<and> m = m' \<and> f = f')
   \<and> (blit_rectangle a b m = blit_rectangle a' b' m' \<longrightarrow> a = a' \<and> b = b' \<and> m = m')
   \<and> (mapForRead fb n = mapForRead fb n' \<longrightarrow> n = n')
   \<and> (read a b cs ct = read a' b' cs' ct' \<longrightarrow> a = a' \<and> b = b' \<and> cs = cs' \<and> ct = ct')
   \<and> (\<exists>w'. perform (BlitRectangles a b c d m f) w = Some (blit a b c d m f, w'))
   \<and> (\<exists>w'. perform (BlitRectangle a b m) w = Some (blit_rectangle a b m, w'))
   \<and> (\<exists>w'. perform (ReadImage a b cs ct) w = Some (read a b cs ct, w'))
   \<and> (\<exists>w'. perform (MapDefaultForRead da) w = Some (mapDefaultForRead da, w'))
   \<and> (fb \<in> objects w \<longrightarrow> (\<exists>w'. perform (MapForRead fb n) w = Some (mapForRead fb n, w')))"
proof -
  have u: "unat (GL_COLOR_ATTACHMENT0 + n) = (36064 + unat n) mod 2 ^ 32"
    by (simp add: GL_COLOR_ATTACHMENT0_def unat_word_ariths)
  have dr: "\<exists>bs. mapForDraw fb ns = [GlBindFramebuffer Draw (framebuffer fb), GlDrawBuffers bs]
          \<and> length bs = length ns
          \<and> (\<forall>i<length ns. ns ! i \<noteq> - 1 \<longrightarrow> bs ! i = GL_COLOR_ATTACHMENT0 + ns ! i)"
    by (simp add: mapForDraw_def bind_def)
  have inj: "blit a b c d m f = blit a' b' c' d' m' f' \<longrightarrow>
         a = a' \<and> b = b' \<and> c = c' \<and> d = d' \<and> m = m' \<and> f = f'"
    "blit_rectangle a b m = blit_rectangle a' b' m' \<longrightarrow> a = a' \<and> b = b' \<and> m = m'"
    "mapForRead fb n = mapForRead fb n' \<longrightarrow> n = n'"
    "read a b cs ct = read a' b' cs' ct' \<longrightarrow> a = a' \<and> b = b' \<and> cs = cs' \<and> ct = ct'"
    by (auto simp add: api_defs intro: Vector2_eq)
  have pf: "\<exists>w'. perform (BlitRectangles a b c d m f) w = Some (blit a b c d m f, w')"
    "\<exists>w'. perform (BlitRectangle a b m) w = Some (blit_rectangle a b m, w')"
    "\<exists>w'. perform (ReadImage a b cs ct) w = Some (read a b cs ct, w')"
    "\<exists>w'. perform (MapDefaultForRead da) w = Some (mapDefaultForRead da, w')"
    "fb \<in> objects w \<longrightarrow> (\<exists>w'. perform (MapForRead fb n) w = Some (mapForRead fb n, w'))"
    by (simp_all add: issue_def on_object_def)
  have forms: "blit a b c d m f =
     [GlBlitFramebuffer (vx a) (vy a) (vx b) (vy b) (vx c) (vy c) (vx d) (vy d) m f]"
    "blit_rectangle a b m =
     [GlBlitFramebuffer (vx a) (vy a) (vx b) (vy b) (vx a) (vy a) (vx b) (vy b) m NearestNeighbor]"
    "mapForRead fb n = [GlBindFramebuffer Read (framebuffer fb), GlReadBuffer (GL_COLOR_ATTACHMENT0 + n)]"
    "mapDefaultForRead da = [GlBindFramebuffer Read 0, GlReadBuffer (DefaultReadAttachment_GLenum da)]"
    "read a b cs ct = [GlReadPixels (vx a) (vy a) (vx b) (vy b) cs ct ClientMemory]"
    "read_buffered a b cs ct u = [GlReadPixels (vx a) (vy a) (vx b) (vy b) cs ct (PixelBuffer u)]"
    by (simp_all add: api_defs)
  from forms u dr inj pf show ?thesis
    by (intro conjI)
qed

theorem parameters_forwarded_unchecked_witness:
  "blit \<lparr>vx = 10, vy = 10\<rparr> \<lparr>vx = 0, vy = - 3\<rparr> \<lparr>vx = 0, vy = 0\<rparr> \<lparr>vx = 0, vy = 0\<rparr> 0x4000
     LinearInterpolation =
     [GlBlitFramebuffer 10 10 0 (- 3) 0 0 0 0 0x4000 LinearInterpolation]
   \<and> mapForRead \<lparr>framebuffer = 3\<rparr> 4294931232 = [GlBindFramebuffer Read 3, GlReadBuffer 0]
   \<and> mapForRead \<lparr>framebuffer = 3\<rparr> 32 = [GlBindFramebuffer Read 3, GlReadBuffer 0x8D00]
   \<and> unat (GL_COLOR_ATTACHMENT0 + 4294931232) = 0"
  using parameters_forwarded_unchecked [of "\<lparr>vx = 10, vy = 10\<rparr>" "\<lparr>vx = 0, vy = - 3\<rparr>"
      "\<lparr>vx = 0, vy = 0\<rparr>" "\<lparr>vx = 0, vy = 0\<rparr>" "0x4000" LinearInterpolation
      "\<lparr>framebuffer = 3\<rparr>" 4294931232]
    parameters_forwarded_unchecked [of "\<lparr>vx = 10, vy = 10\<rparr>" "\<lparr>vx = 0, vy = - 3\<rparr>"
      "\<lparr>vx = 0, vy = 0\<rparr>" "\<lparr>vx = 0, vy = 0\<rparr>" "0x4000" LinearInterpolation
      "\<lparr>framebuffer = 3\<rparr>" 32]
  by (simp add: gl_constants)

subsection \<open>Handles and lifetimes\<close>

lemma allocations_append: "allocations h (cs @ ds) = allocations h cs + allocations h ds"
  by (induction cs) (simp_all add: allocations_def)

lemma releases_append: "releases h (cs @ ds) = releases h cs + releases h ds"
  by (induction cs) (simp_all add: releases_def)

lemma attach_counts:
  "allocations h (attach fb t sl res) = 0" "releases h (attach fb t sl res) = 0"
  using attach_calls [of fb t sl res] by (auto simp add: allocations_def releases_def)

lemma names_attach: "names (gl_run (attach fb t sl res) g) = names g"
  by (simp add: gl_run_attach attach_image_fields bind_fields)

lemma perform_balanced:
  assumes "perform a w = Some (cs, w')" and "balanced tr w"
  shows "balanced (tr @ cs) w'"
proof (cases a)
  case (Construct n)
  with assms(1) have n: "n \<noteq> 0" "n \<notin> names (gl w)" and cs: "cs = [GlGenFramebuffers 1 [n]]"
    and w': "w' = w\<lparr>gl := gl_run cs (gl w), objects := insert \<lparr>framebuffer = n\<rparr> (objects w)\<rparr>"
    by (auto simp add: Framebuffer_ctor_def split: if_splits)
  from n assms(2) have fresh: "\<lparr>framebuffer = n\<rparr> \<notin> objects w"
    by (force simp add: balanced_def)
  show ?thesis
    using assms(2) n fresh
    by (auto simp add: balanced_def allocations_append releases_append cs w' allocations_def
        releases_def)
next
  case (Destruct fb)
  with assms(1) have fb: "fb \<in> objects w" and cs: "cs = [GlDeleteFramebuffers 1 [framebuffer fb]]"
    and w': "w' = w\<lparr>gl := gl_run cs (gl w), objects := objects w - {fb}\<rparr>"
    by (auto simp add: Framebuffer_dtor_def split: if_splits)
  have img: "framebuffer ` (objects w - {fb}) = framebuffer ` objects w - {framebuffer fb}"
    by (auto dest: Framebuffer_eq)
  show ?thesis
    using assms(2) fb
    by (auto simp add: balanced_def allocations_append releases_append cs w' allocations_def
        releases_def img Framebuffer_make dest: Framebuffer_eq)
next
  case (Attach fb t sl res)
  then show ?thesis
    using assms
    by (auto simp add: balanced_def allocations_append releases_append on_object_def issue_def
        attach_counts names_attach split: if_splits)
next
  case (SetClearColor c)
  then show ?thesis
    using assms
    by (cases c) (auto simp add: balanced_def allocations_append releases_append issue_def
        allocations_def releases_def)
next
  case (SetFeature f b)
  then show ?thesis
    using assms
    by (cases b) (auto simp add: balanced_def allocations_append releases_append setFeature_def
        allocations_def releases_def)
qed (use assms in \<open>auto simp add: balanced_def allocations_append releases_append api_defs
        allocations_def releases_def write_planes_fields bind_fields split: if_splits\<close>)

lemma run_balanced:
  "run as w = Some (cs, w') \<Longrightarrow> balanced tr w \<Longrightarrow> balanced (tr @ cs) w'"
proof (induction as arbitrary: w cs tr)
  case Nil
  then show ?case by simp
next
  case (Cons a as)
  from Cons.prems(1) obtain c1 w1 c2 where
    p: "perform a w = Some (c1, w1)" and r: "run as w1 = Some (c2, w')" and cs: "cs = c1 @ c2"
    by (auto split: option.splits)
  from Cons.IH [OF r perform_balanced [OF p Cons.prems(2)]] cs show ?case by simp
qed

lemma initial_balanced: "balanced [] initial_world"
  by (simp add: balanced_def initial_world_def initial_gl_def allocations_def releases_def)

text \<open>
  C8. In every state a program reaches from the initial one, with the native calls \<open>tr\<close>
  issued so far: the handle of every live object is a name in use and not the default
  target; every name was handed out exactly once more than it was released if a live
  object holds it, and exactly as often otherwise; a constructor issues one
  \<open>glGenFramebuffers(1, ...)\<close>, which adds one fresh name and leaves both role bindings;
  and the destructor of any live object, whatever is bound, issues one
  \<open>glDeleteFramebuffers(1, ...)\<close> of its handle, after which a role that another target
  or the default target held still holds it, a role the destroyed target held holds the
  default target, and every other live object keeps its handle and its attachments.
\<close>

theorem handle_lifetime:
  assumes "run as initial_world = Some (tr, w)"
  shows "(\<forall>fb\<in>objects w. framebuffer fb \<in> names (gl w) \<and> framebuffer fb \<noteq> 0)
   \<and> (\<forall>h. allocations h tr = releases h tr + (if \<lparr>framebuffer = h\<rparr> \<in> objects w then 1 else 0))
   \<and> (\<forall>n cs w'. perform (Construct n) w = Some (cs, w') \<longrightarrow>
         cs = [GlGenFramebuffers 1 [n]] \<and> n \<noteq> 0 \<and> n \<notin> names (gl w)
         \<and> names (gl w') = insert n (names (gl w))
         \<and> objects w' = insert \<lparr>framebuffer = n\<rparr> (objects w)
         \<and> read_framebuffer (gl w') = read_framebuffer (gl w)
         \<and> draw_framebuffer (gl w') = draw_framebuffer (gl w))
   \<and> (\<forall>fb\<in>objects w. \<exists>w'.
         perform (Destruct fb) w = Some ([GlDeleteFramebuffers 1 [framebuffer fb]], w')
         \<and> names (gl w') = names (gl w) - {framebuffer fb}
         \<and> objects w' = objects w - {fb}
         \<and> read_framebuffer (gl w') =
             (if read_framebuffer (gl w) = framebuffer fb then 0 else read_framebuffer (gl w))
         \<and> draw_framebuffer (gl w') =
             (if draw_framebuffer (gl w) = framebuffer fb then 0 else draw_framebuffer (gl w))
         \<and> (\<forall>fb'\<in>objects w. fb' \<noteq> fb \<longrightarrow>
               fb' \<in> objects w' \<and> framebuffer fb' \<in> names (gl w')
               \<and> attachments (gl w') (framebuffer fb') = attachments (gl w) (framebuffer fb')))"
proof -
  have b: "balanced tr w"
    using run_balanced [OF assms initial_balanced] by simp
  then have 1: "\<forall>fb\<in>objects w. framebuffer fb \<in> names (gl w) \<and> framebuffer fb \<noteq> 0"
    by (auto simp add: balanced_def)
  from b have 2: "\<forall>h. allocations h tr = releases h tr + (if \<lparr>framebuffer = h\<rparr> \<in> objects w then 1 else 0)"
    by (simp add: balanced_def)
  have 3: "\<forall>n cs w'. perform (Construct n) w = Some (cs, w') \<longrightarrow>
         cs = [GlGenFramebuffers 1 [n]] \<and> n \<noteq> 0 \<and> n \<notin> names (gl w)
         \<and> names (gl w') = insert n (names (gl w))
         \<and> objects w' = insert \<lparr>framebuffer = n\<rparr> (objects w)
         \<and> read_framebuffer (gl w') = read_framebuffer (gl w)
         \<and> draw_framebuffer (gl w') = draw_framebuffer (gl w)"
    by (auto simp add: Framebuffer_ctor_def split: if_splits)
  have 4: "\<forall>fb\<in>objects w. \<exists>w'.
         perform (Destruct fb) w = Some ([GlDeleteFramebuffers 1 [framebuffer fb]], w')
         \<and> names (gl w') = names (gl w) - {framebuffer fb}
         \<and> objects w' = objects w - {fb}
         \<and> read_framebuffer (gl w') =
             (if read_framebuffer (gl w) = framebuffer fb then 0 else read_framebuffer (gl w))
         \<and> draw_framebuffer (gl w') =
             (if draw_framebuffer (gl w) = framebuffer fb then 0 else draw_framebuffer (gl w))
         \<and> (\<forall>fb'\<in>objects w. fb' \<noteq> fb \<longrightarrow>
               fb' \<in> objects w' \<and> framebuffer fb' \<in> names (gl w')
               \<and> attachments (gl w') (framebuffer fb') = attachments (gl w) (framebuffer fb'))"
  proof
    fix fb assume fb: "fb \<in> objects w"
    let ?w' = "w\<lparr>gl := gl_run (Framebuffer_dtor fb) (gl w), objects := objects w - {fb}\<rparr>"
    have p: "perform (Destruct fb) w = Some ([GlDeleteFramebuffers 1 [framebuffer fb]], ?w')"
      using fb by (simp add: Framebuffer_dtor_def)
    have o: "\<forall>fb'\<in>objects w. fb' \<noteq> fb \<longrightarrow>
               fb' \<in> objects ?w' \<and> framebuffer fb' \<in> names (gl ?w')
               \<and> attachments (gl ?w') (framebuffer fb') = attachments (gl w) (framebuffer fb')"
      using 1 by (auto simp add: delete_state dest: Framebuffer_eq)
    show "\<exists>w'. perform (Destruct fb) w = Some ([GlDeleteFramebuffers 1 [framebuffer fb]], w')
         \<and> names (gl w') = names (gl w) - {framebuffer fb}
         \<and> objects w' = objects w - {fb}
         \<and> read_framebuffer (gl w') =
             (if read_framebuffer (gl w) = framebuffer fb then 0 else read_framebuffer (gl w))
         \<and> draw_framebuffer (gl w') =
             (if draw_framebuffer (gl w) = framebuffer fb then 0 else draw_framebuffer (gl w))
         \<and> (\<forall>fb'\<in>objects w. fb' \<noteq> fb \<longrightarrow>
               fb' \<in> objects w' \<and> framebuffer fb' \<in> names (gl w')
               \<and> attachments (gl w') (framebuffer fb') = attachments (gl w) (framebuffer fb'))"
      apply (rule exI [of _ ?w'])
      using p o by (simp add: delete_state)
  qed
  from 1 2 3 4 show ?thesis by blast
qed

theorem handle_lifetime_witness:
  "\<exists>tr w. run [Construct 1, Bind \<lparr>framebuffer = 1\<rparr> Draw, Construct 2, Destruct \<lparr>framebuffer = 1\<rparr>]
             initial_world = Some (tr, w)
     \<and> tr = [GlGenFramebuffers 1 [1], GlBindFramebuffer Draw 1, GlGenFramebuffers 1 [2],
             GlDeleteFramebuffers 1 [1]]
     \<and> allocations 1 tr = releases 1 tr
     \<and> allocations 2 tr = releases 2 tr + 1
     \<and> objects w = {\<lparr>framebuffer = 2\<rparr>}
     \<and> 2 \<in> names (gl w)
     \<and> draw_framebuffer (gl w) = 0"
proof -
  let ?as = "[Construct 1, Bind \<lparr>framebuffer = 1\<rparr> Draw, Construct 2, Destruct \<lparr>framebuffer = 1\<rparr>]"
  define w where "w = snd (the (run ?as initial_world))"
  define tr where "tr = fst (the (run ?as initial_world))"
  have r: "run ?as initial_world = Some (tr, w)"
    unfolding w_def tr_def by (simp add: eval_defs)
  have f: "tr = [GlGenFramebuffers 1 [1], GlBindFramebuffer Draw 1, GlGenFramebuffers 1 [2],
             GlDeleteFramebuffers 1 [1]]"
    "objects w = {\<lparr>framebuffer = 2\<rparr>}" "draw_framebuffer (gl w) = 0"
    unfolding w_def tr_def by (auto simp add: eval_defs)
  note t = handle_lifetime [OF r]
  from t have "allocations 1 tr = releases 1 tr + (if \<lparr>framebuffer = 1\<rparr> \<in> objects w then 1 else 0)"
    "allocations 2 tr = releases 2 tr + (if \<lparr>framebuffer = 2\<rparr> \<in> objects w then 1 else 0)"
    by blast+
  moreover from t f have "framebuffer \<lparr>framebuffer = 2\<rparr> \<in> names (gl w)"
    by blast
  ultimately show ?thesis
    using r f by simp
qed

subsection \<open>\<open>setFeature\<close> twice\<close>

text \<open>
  C9. For every feature, boolean and state, \<open>setFeature(feature, enabled)\<close> is never
  refused, and applying it a second time issues the same call and returns the state the
  first application reached: the same feature flags and the same mask for \<open>clear()\<close>.
  (\<open>setFeature\<close> is modelled from the spec.)
\<close>

theorem setFeature_idempotent:
  "(\<exists>cs w1 w2. perform (SetFeature f b) w = Some (cs, w1)
        \<and> perform (SetFeature f b) w1 = Some (cs, w2)
        \<and> w2 = w1
        \<and> enabled (gl w2) = enabled (gl w1)
        \<and> clearMask w2 = clearMask w1
        \<and> clear (clearMask w2) = clear (clearMask w1)
        \<and> enabled (gl w1) f = b)
   \<and> setFeature f b (snd (setFeature f b cm)) = setFeature f b cm"
proof -
  obtain cs cm' where s: "setFeature f b (clearMask w) = (cs, cm')"
    by (cases "setFeature f b (clearMask w)")
  have cs: "cs = [if b then GlEnable f else GlDisable f]"
    using s by (simp add: setFeature_def)
  let ?w1 = "w\<lparr>gl := gl_run cs (gl w), clearMask := cm'\<rparr>"
  have 1: "perform (SetFeature f b) w = Some (cs, ?w1)"
    using s by simp
  have "setFeature f b cm' = (cs, cm')"
    using setFeature_twice [of f b "clearMask w"] s by simp
  then have 2: "perform (SetFeature f b) ?w1 = Some (cs, ?w1)"
    by (simp add: cs)
  have 3: "enabled (gl ?w1) f = b"
    by (simp add: cs)
  from 1 2 3 setFeature_twice show ?thesis by blast
qed

theorem setFeature_idempotent_witness:
  "\<exists>w1. perform (SetFeature DepthTest True) initial_world = Some ([GlEnable DepthTest], w1)
      \<and> perform (SetFeature DepthTest True) w1 = Some ([GlEnable DepthTest], w1)
      \<and> clearMask w1 = 0x4100 \<and> enabled (gl w1) DepthTest"
proof -
  from setFeature_idempotent [of DepthTest True initial_world]
  obtain cs w1 where p: "perform (SetFeature DepthTest True) initial_world = Some (cs, w1)"
    "perform (SetFeature DepthTest True) w1 = Some (cs, w1)"
    by blast
  from p(1) have "cs = [GlEnable DepthTest]" "clearMask w1 = 0x4100" "enabled (gl w1) DepthTest"
    by (auto simp add: eval_defs)
  with p show ?thesis by blast
qed

subsection \<open>What stays bound\<close>

text \<open>
  C10. After an attach function returns, its object is the target bound to the role it was
  given (to both roles for \<open>ReadDraw\<close>), and for \<open>Read\<close> or \<open>Draw\<close> the other role's
  binding is unchanged; after \<open>mapForRead\<close> the object is Read-bound and after
  \<open>mapDefaultForRead\<close> the default target is. The binding is not restored: a clear that
  follows an attach on the Draw role writes to the planes of the attach's object.
\<close>

theorem attach_leaves_target_bound:
  "bound_framebuffer (gl_run (attach fb t sl res) g) t = framebuffer fb
   \<and> (t = ReadDraw \<longrightarrow> read_framebuffer (gl_run (attach fb t sl res) g) = framebuffer fb
                     \<and> draw_framebuffer (gl_run (attach fb t sl res) g) = framebuffer fb)
   \<and> (t \<noteq> ReadDraw \<longrightarrow> bound_framebuffer (gl_run (attach fb t sl res) g) (other_role t) =
                          bound_framebuffer g (other_role t))
   \<and> read_framebuffer (gl_run (mapForRead fb n) g) = framebuffer fb
   \<and> draw_framebuffer (gl_run (mapForRead fb n) g) = draw_framebuffer g
   \<and> read_framebuffer (gl_run (mapDefaultForRead a) g) = 0
   \<and> draw_framebuffer (gl_run (mapDefaultForRead a) g) = draw_framebuffer g
   \<and> (\<forall>cs w'. perform (Attach fb t sl res) w = Some (cs, w') \<longrightarrow>
         bound_framebuffer (gl w') t = framebuffer fb)
   \<and> (\<forall>cs w'. perform (MapForRead fb n) w = Some (cs, w') \<longrightarrow>
         read_framebuffer (gl w') = framebuffer fb)
   \<and> (\<forall>m p. in_mask p m \<longrightarrow>
         planes (gl_run (attach fb Draw sl res @ clear_mask m) g) (framebuffer fb) p =
         planes g (framebuffer fb) p @ [clear_write g p])"
proof -
  let ?g = "gl_run (attach fb t sl res) g"
  have 1: "bound_framebuffer ?g t = framebuffer fb"
    by (simp add: gl_run_attach attach_image_fields bound_after_bind)
  have 2: "t = ReadDraw \<longrightarrow> read_framebuffer ?g = framebuffer fb \<and> draw_framebuffer ?g = framebuffer fb"
    by (simp add: gl_run_attach attach_image_fields)
  have 3: "t \<noteq> ReadDraw \<longrightarrow> bound_framebuffer ?g (other_role t) = bound_framebuffer g (other_role t)"
    by (simp add: gl_run_attach attach_image_fields bound_other_role)
  have 4: "read_framebuffer (gl_run (mapForRead fb n) g) = framebuffer fb"
    "draw_framebuffer (gl_run (mapForRead fb n) g) = draw_framebuffer g"
    "read_framebuffer (gl_run (mapDefaultForRead a) g) = 0"
    "draw_framebuffer (gl_run (mapDefaultForRead a) g) = draw_framebuffer g"
    by (simp_all add: api_defs)
  have 5: "\<forall>cs w'. perform (Attach fb t sl res) w = Some (cs, w') \<longrightarrow>
         bound_framebuffer (gl w') t = framebuffer fb"
    by (auto simp add: api_defs gl_run_attach attach_image_fields bound_after_bind
        split: if_splits)
  have 6: "\<forall>cs w'. perform (MapForRead fb n) w = Some (cs, w') \<longrightarrow>
         read_framebuffer (gl w') = framebuffer fb"
    by (auto simp add: api_defs split: if_splits)
  have 7: "\<forall>m p. in_mask p m \<longrightarrow>
         planes (gl_run (attach fb Draw sl res @ clear_mask m) g) (framebuffer fb) p =
         planes g (framebuffer fb) p @ [clear_write g p]"
  proof (intro allI impI)
    fix m p assume "in_mask p m"
    let ?h = "gl_run (attach fb Draw sl res) g"
    have d: "draw_framebuffer ?h = framebuffer fb" "planes ?h = planes g"
      by (simp_all add: gl_run_attach attach_image_fields)
    have cw: "clear_write ?h p = clear_write g p"
      by (cases p) (simp_all add: gl_run_attach attach_image_def)
    show "planes (gl_run (attach fb Draw sl res @ clear_mask m) g) (framebuffer fb) p =
         planes g (framebuffer fb) p @ [clear_write g p]"
      using \<open>in_mask p m\<close> d cw
      by (simp add: gl_run_append clear_mask_def write_planes_def)
  qed
  from 1 2 3 4 5 6 7 show ?thesis by blast
qed

theorem attach_leaves_target_bound_witness:
  "draw_framebuffer (gl_run (bind \<lparr>framebuffer = 2\<rparr> Draw) initial_gl) = 2
   \<and> draw_framebuffer
       (gl_run (attach \<lparr>framebuffer = 1\<rparr> Draw (DepthStencilSlot DepthStencilAttachment.Depth)
                  (RenderbufferResource \<lparr>Renderbuffer_id = 5\<rparr>))
          (gl_run (bind \<lparr>framebuffer = 2\<rparr> Draw) initial_gl)) = 1
   \<and> read_framebuffer (gl_run (mapForRead \<lparr>framebuffer = 1\<rparr> 0)
          (gl_run (bind \<lparr>framebuffer = 2\<rparr> Read) initial_gl)) = 1"
  using attach_leaves_target_bound [of "\<lparr>framebuffer = 1\<rparr>" Draw
      "DepthStencilSlot DepthStencilAttachment.Depth" "RenderbufferResource \<lparr>Renderbuffer_id = 5\<rparr>"
      "gl_run (bind \<lparr>framebuffer = 2\<rparr> Draw) initial_gl"]
    attach_leaves_target_bound [of "\<lparr>framebuffer = 1\<rparr>" Draw
      "DepthStencilSlot DepthStencilAttachment.Depth" "RenderbufferResource \<lparr>Renderbuffer_id = 5\<rparr>"
      "gl_run (bind \<lparr>framebuffer = 2\<rparr> Read) initial_gl" 0]
  by (simp add: bind_def)

end
